theory Spec2Isabelle
  imports
    Main
    "HOL-Library.Multiset"
    "HOL-Library.Char_ord"
    "HOL-Library.List_Lexorder"
begin

section \<open>JavaScript values\<close>

text \<open>
  The connector passes JSON-shaped data around: Hull entities, Close.io records and the
  payloads built from them. A value is one of the JSON kinds, plus \<open>undefined\<close>,
  which a read of a missing property yields. Numbers are the integers (the code under
  study does no arithmetic on them). An object is its list of own properties in
  insertion order; a read takes the first entry for a key.
\<close>

datatype jsval =
    JUndefined
  | JNull
  | JBool bool
  | JNum int
  | JStr string
  | JArr "jsval list"
  | JObj "(string \<times> jsval) list"

type_synonym jsobj = "(string \<times> jsval) list"

text \<open>\<open>obj[key]\<close>: the property's value, \<open>undefined\<close> when the object has none.\<close>

definition obj_get :: "jsobj \<Rightarrow> string \<Rightarrow> jsval" where
  "obj_get obj k = (case map_of obj k of None \<Rightarrow> JUndefined | Some v \<Rightarrow> v)"

text \<open>\<open>_.has(obj, key)\<close> for a key that is no deep path: an own property exists,
  whatever its value.\<close>

definition obj_has :: "jsobj \<Rightarrow> string \<Rightarrow> bool" where
  "obj_has obj k = (map_of obj k \<noteq> None)"

text \<open>\<open>obj[key] = v\<close>: overwrites the property in place, or appends a new one.\<close>

fun obj_set :: "(string \<times> 'a) list \<Rightarrow> string \<Rightarrow> 'a \<Rightarrow> (string \<times> 'a) list" where
  "obj_set [] k v = [(k, v)]"
| "obj_set ((k', v') # ps) k v = (if k' = k then (k, v) # ps else (k', v') # obj_set ps k v)"

text \<open>\<open>_.isNil\<close>: \<open>null\<close> or \<open>undefined\<close>.\<close>

fun isNil :: "jsval \<Rightarrow> bool" where
  "isNil JUndefined = True"
| "isNil JNull = True"
| "isNil _ = False"

text \<open>JavaScript truthiness, and \<open>a || b\<close>, which yields \<open>a\<close> when it is
  truthy and \<open>b\<close> otherwise.\<close>

fun truthy :: "jsval \<Rightarrow> bool" where
  "truthy JUndefined = False"
| "truthy JNull = False"
| "truthy (JBool b) = b"
| "truthy (JNum n) = (n \<noteq> 0)"
| "truthy (JStr s) = (s \<noteq> [])"
| "truthy (JArr _) = True"
| "truthy (JObj _) = True"

definition js_or :: "jsval \<Rightarrow> jsval \<Rightarrow> jsval" where
  "js_or a b = (if truthy a then a else b)"

section \<open>Messages and envelopes\<close>

text \<open>
  A Hull entity (user or account) as the notification carries it: the platform's id and
  indexing timestamp, both strings, and the open bag of attributes. \<open>entity_obj\<close> is
  the entity seen as the JavaScript object it is.
\<close>

record hull_entity =
  entity_id :: string
  indexed_at :: string
  attributes :: jsobj

definition entity_obj :: "hull_entity \<Rightarrow> jsobj" where
  "entity_obj e = (''id'', JStr (entity_id e)) # (''indexed_at'', JStr (indexed_at e)) # attributes e"

record hull_segment =
  segment_id :: string
  segment_name :: string

record hull_event =
  event_id :: string
  event_name :: string
  properties :: jsval

text \<open>
  \<open>THullAccountUpdateMessage\<close> and \<open>THullUserUpdateMessage\<close>. A list the message
  may lack is an option: \<open>None\<close> is the missing property.
\<close>

record account_update_message =
  account :: hull_entity
  account_segments :: "hull_segment list option"
  events :: "hull_event list option"

record user_update_message = account_update_message +
  user :: hull_entity
  segments :: "hull_segment list option"

text \<open>
  The envelopes of \<open>types.js\<close>, with the fields the sync agent fills in
  (\<open>buildAccountUpdateEnvelope\<close>, \<open>buildUserUpdateEnvelope\<close>). \<open>skipReason\<close> and
  \<open>opsResult\<close> are \<open>None\<close> while they are \<open>null\<close> or unset.
\<close>

record 'm envelope =
  message :: 'm
  skipReason :: "string option"
  opsResult :: "string option"

record account_update_envelope = "account_update_message envelope" +
  hullAccount :: hull_entity
  cioLeadWrite :: jsobj

record user_update_envelope = "user_update_message envelope" +
  hullUser :: hull_entity
  cioContactWrite :: jsobj

datatype any_envelope =
    UserUpdateEnvelope user_update_envelope
  | AccountUpdateEnvelope account_update_envelope

record 'e FilterResults =
  toSkip :: "'e list"
  toInsert :: "'e list"
  toUpdate :: "'e list"

section \<open>The message catalogue\<close>

text \<open>
  \<open>shared-messages.js\<close> is not part of the sources at hand. The functions below take
  the catalogue as a parameter: one message text per entry they use.
\<close>

record shared_messages =
  OPERATION_SKIP_NOMATCHACCOUNTSEGMENTSUSER :: string
  OPERATION_SKIP_NOMATCHACCOUNTSEGMENTS :: string
  OPERATION_SKIP_USERDOESNTEXISTINCLOSEIO :: string
  OPERATION_SKIP_ACCOUNTDOESNTEXISTINCLOSEIO :: string
  OPERATION_SKIP_NOLINKEDACCOUNT :: string
  MAPPING_NOOUTBOUNDFIELDS :: string
  MAPPING_UNSUPPORTEDTYPEOUTBOUND :: "string \<Rightarrow> string"

section \<open>FilterUtil\<close>

text \<open>
  The configuration handed to the constructor and the util it builds. The cache is the
  collaborator's \<open>get\<close>: the value stored under a key, \<open>undefined\<close> when there is
  none. The filters only read it. The class declares the cache as an object, and so does
  the model: a util built without a cache, or a \<open>get\<close> that rejects, is outside it.
\<close>

record FilterUtilConfiguration =
  config_synchronizedAccountSegments :: "string list option"
  config_leadIdentifierHull :: "string option"
  config_cache :: "string \<Rightarrow> jsval"

record FilterUtil =
  synchronizedAccountSegments :: "string list"
  leadIdentifierHull :: string
  cache :: "string \<Rightarrow> jsval"

definition new_FilterUtil :: "FilterUtilConfiguration \<Rightarrow> FilterUtil" where
  "new_FilterUtil config =
     \<lparr> synchronizedAccountSegments =
         (case config_synchronizedAccountSegments config of None \<Rightarrow> [] | Some l \<Rightarrow> l),
       leadIdentifierHull =
         (case config_leadIdentifierHull config of
            None \<Rightarrow> ''domain''
          | Some s \<Rightarrow> if s = [] then ''domain'' else s),
       cache = config_cache config \<rparr>"

text \<open>
  \<open>_.get(envelope, segmentPropertyName, [])\<close> for the paths that name a segment list
  of a message; a missing list reads as the default \<open>[]\<close>.
\<close>

fun envelope_segments :: "any_envelope \<Rightarrow> string \<Rightarrow> hull_segment list" where
  "envelope_segments (UserUpdateEnvelope e) p =
     (if p = ''message.account_segments''
      then (case account_segments (message e) of None \<Rightarrow> [] | Some l \<Rightarrow> l)
      else if p = ''message.segments''
      then (case segments (message e) of None \<Rightarrow> [] | Some l \<Rightarrow> l)
      else [])"
| "envelope_segments (AccountUpdateEnvelope e) p =
     (if p = ''message.account_segments''
      then (case account_segments (message e) of None \<Rightarrow> [] | Some l \<Rightarrow> l)
      else [])"

text \<open>The distinct values of a list, each at its first occurrence (\<open>_.uniq\<close>).\<close>

definition uniq :: "'a list \<Rightarrow> 'a list" where
  "uniq xs = rev (remdups (rev xs))"

text \<open>\<open>_.intersection(a, b)\<close>: the distinct values of \<open>a\<close> that occur in \<open>b\<close>,
  in the order of \<open>a\<close>.\<close>

definition intersection :: "'a list \<Rightarrow> 'a list \<Rightarrow> 'a list" where
  "intersection a b = uniq (filter (\<lambda>x. x \<in> set b) a)"

text \<open>The path has the default \<open>message.segments\<close> in the source; both filters pass
  \<open>message.account_segments\<close>.\<close>

definition matchesSynchronizedAccountSegments :: "FilterUtil \<Rightarrow> any_envelope \<Rightarrow> string \<Rightarrow> bool" where
  "matchesSynchronizedAccountSegments this envelope segmentPropertyName =
     (let msgSegmentIds = map segment_id (envelope_segments envelope segmentPropertyName)
      in if length (intersection msgSegmentIds (synchronizedAccountSegments this)) > 0
         then True
         else False)"

text \<open>The callback \<open>filterAccounts\<close> runs on each envelope, with the results so far.\<close>

definition filterAccounts_each ::
  "shared_messages \<Rightarrow> FilterUtil \<Rightarrow> account_update_envelope FilterResults \<Rightarrow>
     account_update_envelope \<Rightarrow> account_update_envelope FilterResults" where
  "filterAccounts_each msgs this results envelope =
     (if \<not> matchesSynchronizedAccountSegments this (AccountUpdateEnvelope envelope)
             ''message.account_segments''
      then results\<lparr> toSkip := toSkip results @
             [envelope\<lparr> skipReason := Some (OPERATION_SKIP_NOMATCHACCOUNTSEGMENTS msgs),
                        opsResult := Some ''skip'' \<rparr>] \<rparr>
      else
        let cachedCioLeadId = cache this (entity_id (hullAccount envelope))
        in if obj_has (entity_obj (hullAccount envelope)) ''closeio/id''
              \<or> \<not> isNil cachedCioLeadId
           then results\<lparr> toUpdate := toUpdate results @
                  [envelope\<lparr> cioLeadWrite := obj_set (cioLeadWrite envelope) ''id''
                      (js_or (obj_get (entity_obj (hullAccount envelope)) ''closeio/id'')
                             cachedCioLeadId) \<rparr>] \<rparr>
           else results\<lparr> toSkip := toSkip results @
                  [envelope\<lparr> skipReason := Some (OPERATION_SKIP_ACCOUNTDOESNTEXISTINCLOSEIO msgs),
                             opsResult := Some ''skip'' \<rparr>] \<rparr>)"

definition filterAccounts ::
  "shared_messages \<Rightarrow> FilterUtil \<Rightarrow> account_update_envelope list \<Rightarrow>
     account_update_envelope FilterResults" where
  "filterAccounts msgs this envelopes =
     foldl (filterAccounts_each msgs this) \<lparr> toSkip = [], toInsert = [], toUpdate = [] \<rparr> envelopes"

definition filterUsers_each ::
  "shared_messages \<Rightarrow> FilterUtil \<Rightarrow> user_update_envelope FilterResults \<Rightarrow>
     user_update_envelope \<Rightarrow> user_update_envelope FilterResults" where
  "filterUsers_each msgs this results envelope =
     (if \<not> matchesSynchronizedAccountSegments this (UserUpdateEnvelope envelope)
             ''message.account_segments''
      then results\<lparr> toSkip := toSkip results @
             [envelope\<lparr> skipReason := Some (OPERATION_SKIP_NOMATCHACCOUNTSEGMENTSUSER msgs),
                        opsResult := Some ''skip'' \<rparr>] \<rparr>
      else
        let cachedContactCioId = cache this (entity_id (hullUser envelope))
        in if obj_has (entity_obj (hullUser envelope)) ''traits_closeio/id''
              \<or> \<not> isNil cachedContactCioId
           then results\<lparr> toUpdate := toUpdate results @
                  [envelope\<lparr> cioContactWrite := obj_set (cioContactWrite envelope) ''id''
                      (js_or (obj_get (entity_obj (hullUser envelope)) ''traits_closeio/id'')
                             cachedContactCioId) \<rparr>] \<rparr>
           else results\<lparr> toSkip := toSkip results @
                  [envelope\<lparr> skipReason := Some (OPERATION_SKIP_USERDOESNTEXISTINCLOSEIO msgs),
                             opsResult := Some ''skip'' \<rparr>] \<rparr>)"

definition filterUsers ::
  "shared_messages \<Rightarrow> FilterUtil \<Rightarrow> user_update_envelope list \<Rightarrow>
     user_update_envelope FilterResults" where
  "filterUsers msgs this envelopes =
     foldl (filterUsers_each msgs this) \<lparr> toSkip = [], toInsert = [], toUpdate = [] \<rparr> envelopes"

section \<open>Errors\<close>

text \<open>
  What the code throws, as values: a \<open>TypeError\<close> of the runtime (a property read or
  written on \<open>undefined\<close> or \<open>null\<close>), and the \<open>LogicError\<close> of the mapping util
  with its message, the place that raised it, and the object type and Hull object it
  reports.
\<close>

datatype error =
    TypeError
  | LogicError string string string jsobj


section \<open>Deduplication\<close>

text \<open>
  The order in which JavaScript enumerates the own string keys of an object: the keys
  that are array indices (canonical decimal numerals below \<open>2^32 - 1\<close>) in ascending
  numeric order, then the other keys in insertion order.
\<close>

definition is_digit :: "char \<Rightarrow> bool" where
  "is_digit c = (CHR ''0'' \<le> c \<and> c \<le> CHR ''9'')"

definition nat_of_digits :: "string \<Rightarrow> nat" where
  "nat_of_digits s = foldl (\<lambda>n c. 10 * n + (of_char c - 48)) 0 s"

definition is_array_index :: "string \<Rightarrow> bool" where
  "is_array_index s =
     (s \<noteq> [] \<and> list_all is_digit s \<and> (s = ''0'' \<or> hd s \<noteq> CHR ''0'')
      \<and> nat_of_digits s < 4294967295)"

definition own_entries :: "(string \<times> 'a) list \<Rightarrow> (string \<times> 'a) list" where
  "own_entries obj =
     sort_key (\<lambda>p. nat_of_digits (fst p)) (filter (\<lambda>p. is_array_index (fst p)) obj)
     @ filter (\<lambda>p. \<not> is_array_index (fst p)) obj"









section \<open>More of JavaScript and lodash\<close>

text \<open>
  Reading a property of any value, \<open>v[k]\<close>, where \<open>v\<close> is not \<open>null\<close> or
  \<open>undefined\<close>: an own property of an object, an index or the length of an array or a
  string. Properties inherited from the prototypes are not modelled; they read as
  \<open>undefined\<close>.
\<close>

definition index_of :: "string \<Rightarrow> nat option" where
  "index_of k = (if is_array_index k then Some (nat_of_digits k) else None)"

fun js_prop :: "jsval \<Rightarrow> string \<Rightarrow> jsval" where
  "js_prop (JObj obj) k = obj_get obj k"
| "js_prop (JArr xs) k =
     (if k = ''length'' then JNum (int (length xs))
      else case index_of k of
             None \<Rightarrow> JUndefined
           | Some i \<Rightarrow> if i < length xs then xs ! i else JUndefined)"
| "js_prop (JStr s) k =
     (if k = ''length'' then JNum (int (length s))
      else case index_of k of
             None \<Rightarrow> JUndefined
           | Some i \<Rightarrow> if i < length s then JStr [s ! i] else JUndefined)"
| "js_prop _ k = JUndefined"

text \<open>
  \<open>_.get(object, path)\<close> and \<open>_.get(object, path, default)\<close>. A path that is an own
  key of the object, or that has no dot, is one key; any other path is split at its dots
  (the bracket syntax of lodash paths is not modelled). The walk stops at \<open>null\<close> or
  \<open>undefined\<close>; the default stands in for an \<open>undefined\<close> result.
\<close>

fun split_dots :: "string \<Rightarrow> string list" where
  "split_dots [] = [[]]"
| "split_dots (c # cs) =
     (if c = CHR ''.'' then [] # split_dots cs
      else case split_dots cs of [] \<Rightarrow> [[c]] | seg # segs \<Rightarrow> (c # seg) # segs)"

fun get_in :: "jsval \<Rightarrow> string list \<Rightarrow> jsval" where
  "get_in v [] = v"
| "get_in v (k # ks) = (if isNil v then JUndefined else get_in (js_prop v k) ks)"

definition lodash_get :: "jsval \<Rightarrow> string \<Rightarrow> jsval" where
  "lodash_get object path =
     (case object of
        JObj obj \<Rightarrow>
          if obj_has obj path \<or> CHR ''.'' \<notin> set path then obj_get obj path
          else get_in object (split_dots path)
      | _ \<Rightarrow>
          if CHR ''.'' \<notin> set path then get_in object [path]
          else get_in object (split_dots path))"

definition lodash_get_default :: "jsval \<Rightarrow> string \<Rightarrow> jsval \<Rightarrow> jsval" where
  "lodash_get_default object path dflt =
     (let v = lodash_get object path in if v = JUndefined then dflt else v)"

text \<open>The values \<open>_.forEach\<close> visits and the entries \<open>_.forIn\<close> visits: the
  elements of an array or the characters of a string by index, the own properties of an
  object, nothing for any other value. (An object with a numeric \<open>length\<close> is
  treated as any other object.)\<close>

fun indexed :: "nat \<Rightarrow> 'a list \<Rightarrow> (nat \<times> 'a) list" where
  "indexed i [] = []"
| "indexed i (x # xs) = (i, x) # indexed (Suc i) xs"

definition digit_char :: "nat \<Rightarrow> char" where
  "digit_char d = char_of (d + of_char (CHR ''0''))"

fun string_of_nat :: "nat \<Rightarrow> string" where
  "string_of_nat n =
     (if 9 < n then string_of_nat (n div 10) @ [digit_char (n mod 10)] else [digit_char n])"

fun forIn_entries :: "jsval \<Rightarrow> (string \<times> jsval) list" where
  "forIn_entries (JObj obj) = own_entries obj"
| "forIn_entries (JArr xs) = map (\<lambda>(i, x). (string_of_nat i, x)) (indexed 0 xs)"
| "forIn_entries (JStr s) = map (\<lambda>(i, c). (string_of_nat i, JStr [c])) (indexed 0 s)"
| "forIn_entries _ = []"

definition forEach_values :: "jsval \<Rightarrow> jsval list" where
  "forEach_values v = map snd (forIn_entries v)"

text \<open>The string a template literal puts in for a value.\<close>

fun js_to_string :: "jsval \<Rightarrow> string"
  and js_join :: "jsval list \<Rightarrow> string" where
  "js_to_string JUndefined = ''undefined''"
| "js_to_string JNull = ''null''"
| "js_to_string (JBool b) = (if b then ''true'' else ''false'')"
| "js_to_string (JNum n) = (if n < 0 then CHR ''-'' # string_of_nat (nat (- n)) else string_of_nat (nat n))"
| "js_to_string (JStr s) = s"
| "js_to_string (JArr xs) = js_join xs"
| "js_to_string (JObj obj) = ''[object Object]''"
| "js_join [] = []"
| "js_join [x] = (if isNil x then [] else js_to_string x)"
| "js_join (x # y # ys) = (if isNil x then [] else js_to_string x) @ CHR '','' # js_join (y # ys)"

text \<open>\<open>value.length > 0\<close>, for a value that is not \<open>null\<close> or \<open>undefined\<close>.
  A length that is no number counts as not positive.\<close>

definition length_positive :: "jsval \<Rightarrow> bool" where
  "length_positive v = (case js_prop v ''length'' of JNum n \<Rightarrow> 0 < n | _ \<Rightarrow> False)"

text \<open>\<open>_.startsWith\<close>, \<open>_.split(s, ".")[0]\<close> and \<open>[1]\<close>, \<open>s.slice(0, -1)\<close>,
  \<open>_.concat(array, value)\<close> for a value that is no array, and \<open>toLowerCase\<close> on
  the ASCII letters.\<close>

definition startsWith :: "string \<Rightarrow> string \<Rightarrow> bool" where
  "startsWith s target = (take (length target) s = target)"

definition split_first :: "string \<Rightarrow> string" where
  "split_first s = takeWhile (\<lambda>c. c \<noteq> CHR ''.'') s"

definition split_second :: "string \<Rightarrow> jsval" where
  "split_second s =
     (case dropWhile (\<lambda>c. c \<noteq> CHR ''.'') s of
        [] \<Rightarrow> JUndefined
      | dot # rest \<Rightarrow> JStr (takeWhile (\<lambda>c. c \<noteq> CHR ''.'') rest))"

definition concat_value :: "jsval \<Rightarrow> jsval \<Rightarrow> jsval" where
  "concat_value array v = (case array of JArr xs \<Rightarrow> JArr (xs @ [v]) | other \<Rightarrow> JArr [other, v])"

definition toLowerCase :: "string \<Rightarrow> string" where
  "toLowerCase s =
     map (\<lambda>c. if CHR ''A'' \<le> c \<and> c \<le> CHR ''Z'' then char_of (of_char c + (32::nat)) else c) s"

section \<open>MappingUtil\<close>

text \<open>
  The settings of the mapping util. A property of the settings object is missing, \<open>null\<close>
  or present with its value; \<open>attributeMappings\<close> itself is \<open>None\<close> when it is
  \<open>null\<close> or \<open>undefined\<close>. An outbound rule names a Hull field and a Close.io field,
  and may lack either; the rule with neither is the empty object.
\<close>

datatype 'a setting = Missing | Null | Present 'a

record CioOutboundMapping =
  hull_field_name :: "string option"
  closeio_field_name :: "string option"

record CioAttributesMapping =
  lead_attributes_outbound :: "CioOutboundMapping list setting"
  lead_attributes_inbound :: "string list setting"
  contact_attributes_outbound :: "CioOutboundMapping list setting"
  contact_attributes_inbound :: "string list setting"

record CioLeadStatus =
  status_id :: string
  status_label :: string

record CioLeadCustomField =
  field_id :: string
  field_name :: string

record MappingUtil =
  attributeMappings :: "CioAttributesMapping option"
  leadCreationStatusId :: string
  leadStatuses :: "CioLeadStatus list"
  leadCustomFields :: "CioLeadCustomField list"

text \<open>The property \<open>`${objType.toLowerCase()}_attributes_outbound`\<close> of the attribute
  mappings.\<close>

definition attributes_outbound :: "CioAttributesMapping \<Rightarrow> string \<Rightarrow> CioOutboundMapping list setting" where
  "attributes_outbound am objType =
     (if toLowerCase objType = ''lead'' then lead_attributes_outbound am
      else if toLowerCase objType = ''contact'' then contact_attributes_outbound am
      else Missing)"

text \<open>\<open>_.keys(rule).length\<close>.\<close>

definition rule_keys :: "CioOutboundMapping \<Rightarrow> nat" where
  "rule_keys m =
     (case hull_field_name m of None \<Rightarrow> 0 | Some _ \<Rightarrow> 1)
     + (case closeio_field_name m of None \<Rightarrow> 0 | Some _ \<Rightarrow> 1)"

text \<open>
  The default properties of a lead, the same in both versions of the util, and of a
  contact, where \<open>mapping-util.js\<close> reads the attribute \<open>account.closeio/id\<close> of the
  user and the other version reads \<open>closeio/id\<close> of the user's \<open>account\<close>, which
  throws when the user has none.
\<close>

definition lead_defaults :: "MappingUtil \<Rightarrow> jsobj \<Rightarrow> jsobj" where
  "lead_defaults this hullObject =
     (let svcObject = obj_set (obj_set [] ''name'' (obj_get hullObject ''name''))
                        ''url'' (obj_get hullObject ''domain'')
      in if \<not> isNil (obj_get hullObject ''closeio/id'')
         then obj_set svcObject ''id'' (obj_get hullObject ''closeio/id'')
         else if isNil (obj_get hullObject ''closeio/id'')
                 \<and> leadCreationStatusId this \<noteq> ''N/A''
                 \<and> leadCreationStatusId this \<noteq> ''hull-default''
         then obj_set svcObject ''status_id'' (JStr (leadCreationStatusId this))
         else svcObject)"

definition contact_id :: "jsobj \<Rightarrow> jsobj \<Rightarrow> jsobj" where
  "contact_id hullObject svcObject =
     (if obj_has hullObject ''traits_closeio/id''
      then obj_set svcObject ''id'' (obj_get hullObject ''traits_closeio/id'')
      else svcObject)"

definition contact_defaults :: "jsobj \<Rightarrow> jsobj" where
  "contact_defaults hullObject =
     contact_id hullObject
       (obj_set (obj_set [] ''name'' (obj_get hullObject ''name''))
          ''lead_id'' (js_or (obj_get hullObject ''account.closeio/id'') JNull))"

definition contact_defaults_001 :: "jsobj \<Rightarrow> error + jsobj" where
  "contact_defaults_001 hullObject =
     (if isNil (obj_get hullObject ''account'') then Inl TypeError
      else Inr (contact_id hullObject
             (obj_set (obj_set [] ''name'' (obj_get hullObject ''name''))
                ''lead_id'' (js_or (js_prop (obj_get hullObject ''account'') ''closeio/id'') JNull))))"

text \<open>The customized mapping: what one rule does to the service object. A rule without
  a field name reads or writes the key \<open>undefined\<close>.\<close>

definition field_key :: "string option \<Rightarrow> string" where
  "field_key name = (case name of None \<Rightarrow> ''undefined'' | Some n \<Rightarrow> n)"

definition apply_outbound_rule :: "jsobj \<Rightarrow> jsobj \<Rightarrow> CioOutboundMapping \<Rightarrow> jsobj" where
  "apply_outbound_rule hullObject svcObject m =
     (let hullAttribValue = lodash_get (JObj hullObject) (field_key (hull_field_name m))
      in if \<not> isNil hullAttribValue
         then
           (case closeio_field_name m of
              None \<Rightarrow> obj_set svcObject ''undefined'' hullAttribValue
            | Some svcAttribName \<Rightarrow>
                if startsWith svcAttribName ''emails'' \<or> startsWith svcAttribName ''phones''
                   \<or> startsWith svcAttribName ''urls''
                then
                  (let arrayAttribName = split_first svcAttribName;
                       typeValue = split_second svcAttribName;
                       svcObject1 = (if \<not> obj_has svcObject arrayAttribName
                                     then obj_set svcObject arrayAttribName (JArr [])
                                     else svcObject);
                       newVal = obj_set [(''type'', typeValue)] (butlast arrayAttribName) hullAttribValue;
                       arrayVal = concat_value (obj_get svcObject1 arrayAttribName) (JObj newVal)
                   in obj_set svcObject1 arrayAttribName arrayVal)
                else obj_set svcObject svcAttribName hullAttribValue)
         else svcObject)"

text \<open>
  \<open>mapToServiceObject\<close> of \<open>server/lib/sync-agent/mapping-util.js\<close>: it first refuses a
  configuration without outbound rules. Reading \<open>length\<close> of a rule list that is
  \<open>null\<close> throws.
\<close>

definition mapToServiceObject ::
  "shared_messages \<Rightarrow> MappingUtil \<Rightarrow> string \<Rightarrow> jsobj \<Rightarrow> error + jsobj" where
  "mapToServiceObject msgs this objType hullObject =
     (case attributeMappings this of
        None \<Rightarrow>
          Inl (LogicError (MAPPING_NOOUTBOUNDFIELDS msgs) ''MappingUtil.mapToServiceObject''
                 objType hullObject)
      | Some am \<Rightarrow>
          (case attributes_outbound am objType of
             Null \<Rightarrow> Inl TypeError
           | Missing \<Rightarrow>
               Inl (LogicError (MAPPING_NOOUTBOUNDFIELDS msgs) ''MappingUtil.mapToServiceObject''
                      objType hullObject)
           | Present mappings \<Rightarrow>
               if length mappings = 0
                  \<or> (length mappings = 1 \<and> rule_keys (hd mappings) = 0)
               then Inl (LogicError (MAPPING_NOOUTBOUNDFIELDS msgs)
                           ''MappingUtil.mapToServiceObject'' objType hullObject)
               else if objType = ''Lead''
               then Inr (foldl (apply_outbound_rule hullObject) (lead_defaults this hullObject) mappings)
               else if objType = ''Contact''
               then Inr (foldl (apply_outbound_rule hullObject) (contact_defaults hullObject) mappings)
               else Inl (LogicError (MAPPING_UNSUPPORTEDTYPEOUTBOUND msgs objType)
                           ''MappingUtil.mapToServiceObject'' objType hullObject)))"

text \<open>
  \<open>mapToServiceObject\<close> of the other version of the util (\<open>unnamed/part_001\<close>): no
  check of the configuration; the rules that name both fields are applied, a rule list
  that is missing or \<open>null\<close> counts as empty, and reading the rules of
  \<open>attributeMappings\<close> throws when that is \<open>null\<close>.
\<close>

definition usable_rule :: "CioOutboundMapping \<Rightarrow> bool" where
  "usable_rule entry =
     (case hull_field_name entry of
        None \<Rightarrow> False
      | Some h \<Rightarrow> h \<noteq> [] \<and> (case closeio_field_name entry of None \<Rightarrow> False | Some c \<Rightarrow> c \<noteq> []))"

definition customized_mapping_001 :: "MappingUtil \<Rightarrow> string \<Rightarrow> jsobj \<Rightarrow> jsobj \<Rightarrow> error + jsobj" where
  "customized_mapping_001 this objType hullObject svcObject =
     (case attributeMappings this of
        None \<Rightarrow> Inl TypeError
      | Some am \<Rightarrow>
          (let mappings = filter usable_rule
                 (case attributes_outbound am objType of Present l \<Rightarrow> l | _ \<Rightarrow> [])
           in Inr (foldl (apply_outbound_rule hullObject) svcObject mappings)))"

definition mapToServiceObject_001 ::
  "shared_messages \<Rightarrow> MappingUtil \<Rightarrow> string \<Rightarrow> jsobj \<Rightarrow> error + jsobj" where
  "mapToServiceObject_001 msgs this objType hullObject =
     (if objType = ''Lead''
      then customized_mapping_001 this objType hullObject (lead_defaults this hullObject)
      else if objType = ''Contact''
      then (case contact_defaults_001 hullObject of
              Inl e \<Rightarrow> Inl e
            | Inr svcObject \<Rightarrow> customized_mapping_001 this objType hullObject svcObject)
      else Inl (LogicError (MAPPING_UNSUPPORTEDTYPEOUTBOUND msgs objType)
                  ''MappingUtil.mapToServiceObject'' objType hullObject))"

text \<open>
  Inbound, in \<open>unnamed/part_001\<close>. A Hull attribute is written as the object
  \<open>{ value, operation }\<close>. \<open>_.snakeCase\<close> is lodash's and is taken as a parameter;
  it reads \<open>undefined\<close> as the empty string.
\<close>

definition attribute_write :: "jsval \<Rightarrow> string \<Rightarrow> jsval" where
  "attribute_write v operation = JObj [(''value'', v), (''operation'', JStr operation)]"

definition getHumanFieldName :: "(string \<Rightarrow> string) \<Rightarrow> MappingUtil \<Rightarrow> string \<Rightarrow> string" where
  "getHumanFieldName snakeCase this field =
     (let fieldIds = map (\<lambda>c. ''custom.'' @ field_id c) (leadCustomFields this)
      in if field \<in> set fieldIds
         then (case find (\<lambda>c. field_id c = field) (leadCustomFields this) of
                 None \<Rightarrow> snakeCase []
               | Some customField \<Rightarrow> snakeCase (field_name customField))
         else snakeCase field)"

text \<open>A \<open>reduce\<close> whose callback may throw.\<close>

fun reduce :: "('b \<Rightarrow> 'a \<Rightarrow> error + 'b) \<Rightarrow> 'a list \<Rightarrow> 'b \<Rightarrow> error + 'b" where
  "reduce f [] acc = Inr acc"
| "reduce f (x # xs) acc = (case f acc x of Inl e \<Rightarrow> Inl e | Inr acc' \<Rightarrow> reduce f xs acc')"

definition apply_inbound_field ::
  "(string \<Rightarrow> string) \<Rightarrow> MappingUtil \<Rightarrow> jsobj \<Rightarrow> jsobj \<Rightarrow> string \<Rightarrow> error + jsobj" where
  "apply_inbound_field snakeCase this serviceObject hullAttrs m =
     (if m = ''phones'' \<or> m = ''emails'' \<or> m = ''urls''
      then
        (let arrayVal = lodash_get_default (JObj serviceObject) m (JArr [])
         in Inr (foldl (\<lambda>h v. obj_set h
                          (''closeio/'' @ butlast m @ ''_'' @ js_to_string (lodash_get v ''type''))
                          (attribute_write (lodash_get v (butlast m)) ''set''))
                   hullAttrs (forEach_values arrayVal)))
      else if m = ''status_id''
      then
        (if obj_get serviceObject ''status_id'' \<noteq> JUndefined
         then (case find (\<lambda>s. JStr (status_id s) = obj_get serviceObject ''status_id'')
                         (leadStatuses this) of
                 None \<Rightarrow> Inr hullAttrs
               | Some leadStatus \<Rightarrow>
                   Inr (obj_set hullAttrs ''closeio/status''
                          (attribute_write (JStr (status_label leadStatus)) ''set'')))
         else Inr hullAttrs)
      else if m = ''addresses''
      then
        (if obj_has serviceObject m
         then
           (let addresses = lodash_get_default (JObj serviceObject) m (JArr [])
            in if addresses = JNull then Inl TypeError
               else if length_positive addresses
               then
                 (let addressData = js_prop addresses ''0'';
                      attribPrefix = ''closeio/address_''
                        @ js_to_string (lodash_get_default addressData ''label'' (JStr ''office''))
                  in Inr (foldl (\<lambda>h kv. if fst kv \<noteq> ''label''
                                          then obj_set h (attribPrefix @ ''_'' @ fst kv)
                                                 (attribute_write (snd kv) ''set'')
                                          else h)
                            hullAttrs (forIn_entries addressData)))
               else Inr hullAttrs)
         else Inr hullAttrs)
      else if m = ''opportunities''
      then Inr hullAttrs
      else
        (if \<not> isNil (lodash_get (JObj serviceObject) m)
         then Inr (obj_set hullAttrs (''closeio/'' @ getHumanFieldName snakeCase this m)
                     (attribute_write (lodash_get (JObj serviceObject) m) ''set''))
         else Inr hullAttrs))"

definition applyMapping_001 ::
  "(string \<Rightarrow> string) \<Rightarrow> MappingUtil \<Rightarrow> string list \<Rightarrow> jsobj \<Rightarrow> error + jsobj" where
  "applyMapping_001 snakeCase this mapping serviceObject =
     reduce (apply_inbound_field snakeCase this serviceObject) mapping []"

fun is_string :: "jsval \<Rightarrow> bool" where
  "is_string (JStr s) = True"
| "is_string _ = False"

definition mapLeadToHullAccountAttributes_001 ::
  "(string \<Rightarrow> string) \<Rightarrow> MappingUtil \<Rightarrow> jsobj \<Rightarrow> error + jsobj" where
  "mapLeadToHullAccountAttributes_001 snakeCase this lead =
     (case attributeMappings this of
        None \<Rightarrow> Inl TypeError
      | Some am \<Rightarrow>
          (let mapping = (case lead_attributes_inbound am of Present l \<Rightarrow> l | _ \<Rightarrow> [])
           in case applyMapping_001 snakeCase this mapping lead of
                Inl e \<Rightarrow> Inl e
              | Inr hObject \<Rightarrow>
                  (let hObject1 = (if obj_has lead ''id''
                                   then obj_set hObject ''closeio/id''
                                          (attribute_write (obj_get lead ''id'') ''set'')
                                   else hObject);
                       closeioName = obj_get hObject1 ''closeio/name'';
                       hObject2 = (if truthy closeioName \<and> truthy (js_prop closeioName ''value'')
                                      \<and> is_string (js_prop closeioName ''value'')
                                   then obj_set hObject1 ''name''
                                          (attribute_write (js_prop closeioName ''value'') ''setIfNull'')
                                   else hObject1);
                       hObject3 = obj_set hObject2 ''closeio/created_at''
                                    (attribute_write (obj_get lead ''date_created'') ''setIfNull'')
                   in Inr (obj_set hObject3 ''closeio/updated_at''
                             (attribute_write (obj_get lead ''date_updated'') ''set'')))))"

section \<open>normalizeUrl\<close>

text \<open>
  \<open>new URL(original)\<close> is the runtime's: it yields a URL object or throws. It is a
  parameter here. \<open>try_catch\<close> runs the handler on what the body throws.
\<close>

record URL =
  href :: string
  hostname :: string

definition try_catch :: "error + 'a \<Rightarrow> (error \<Rightarrow> error + 'a) \<Rightarrow> error + 'a" where
  "try_catch body handler = (case body of Inl e \<Rightarrow> handler e | Inr v \<Rightarrow> Inr v)"

definition normalizeUrl :: "(string \<Rightarrow> error + URL) \<Rightarrow> string \<Rightarrow> error + string" where
  "normalizeUrl new_URL original =
     try_catch
       (case new_URL original of
          Inl e \<Rightarrow> Inl e
        | Inr closeUrl \<Rightarrow> Inr (hostname closeUrl))
       (\<lambda>error. Inr original)"

section \<open>Example inputs\<close>

text \<open>
  Concrete inputs in the shape of the unit tests of \<open>filter-util.spec.js\<close>: one
  synchronized segment, an account and a user that belong to it, and a cache that holds
  nothing (the test's cache mock resolves every \<open>get\<close> to \<open>undefined\<close>).
\<close>

definition example_catalogue :: shared_messages where
  "example_catalogue =
     \<lparr> OPERATION_SKIP_NOMATCHACCOUNTSEGMENTSUSER = ''user account segment mismatch'',
       OPERATION_SKIP_NOMATCHACCOUNTSEGMENTS = ''segment mismatch'',
       OPERATION_SKIP_USERDOESNTEXISTINCLOSEIO = ''user does not exist in close.io'',
       OPERATION_SKIP_ACCOUNTDOESNTEXISTINCLOSEIO = ''account does not exist in close.io'',
       OPERATION_SKIP_NOLINKEDACCOUNT = ''not linked to an account'',
       MAPPING_NOOUTBOUNDFIELDS = ''no outbound fields'',
       MAPPING_UNSUPPORTEDTYPEOUTBOUND = (\<lambda>t. ''unsupported type '' @ t) \<rparr>"

definition cache_mock :: "string \<Rightarrow> jsval" where
  "cache_mock k = JUndefined"

definition example_util :: FilterUtil where
  "example_util =
     new_FilterUtil \<lparr> config_synchronizedAccountSegments = Some [''seg1''],
                      config_leadIdentifierHull = Some ''external_id'',
                      config_cache = cache_mock \<rparr>"

definition example_account :: hull_entity where
  "example_account =
     \<lparr> entity_id = ''acc1'', indexed_at = ''2018-02-01'',
       attributes = [(''name'', JStr ''Acme''), (''external_id'', JStr ''x1'')] \<rparr>"

definition example_user :: hull_entity where
  "example_user =
     \<lparr> entity_id = ''usr1'', indexed_at = ''2018-02-01'',
       attributes = [(''name'', JStr ''Jo'')] \<rparr>"

definition example_account_message :: account_update_message where
  "example_account_message =
     \<lparr> account = example_account,
       account_segments = Some [\<lparr> segment_id = ''seg1'', segment_name = ''Leads'' \<rparr>],
       events = None \<rparr>"

definition example_user_message :: user_update_message where
  "example_user_message =
     \<lparr> account = example_account,
       account_segments = Some [\<lparr> segment_id = ''seg1'', segment_name = ''Leads'' \<rparr>],
       events = Some [],
       user = example_user,
       segments = Some [] \<rparr>"

definition example_account_envelope :: account_update_envelope where
  "example_account_envelope =
     \<lparr> message = example_account_message, skipReason = None, opsResult = None,
       hullAccount = example_account,
       cioLeadWrite = [(''name'', JStr ''Acme'')] \<rparr>"

definition example_user_envelope :: user_update_envelope where
  "example_user_envelope =
     \<lparr> message = example_user_message, skipReason = None, opsResult = None,
       hullUser = example_user,
       cioContactWrite = [(''name'', JStr ''Jo''), (''lead_id'', JStr ''lead_1'')] \<rparr>"

text \<open>The same account and user once they carry their Close.io ids.\<close>

definition linked_account_envelope :: account_update_envelope where
  "linked_account_envelope =
     example_account_envelope
       \<lparr> hullAccount := example_account
           \<lparr> attributes := attributes example_account @ [(''closeio/id'', JStr ''lead_1'')] \<rparr> \<rparr>"

definition linked_user_envelope :: user_update_envelope where
  "linked_user_envelope =
     example_user_envelope
       \<lparr> hullUser := example_user
           \<lparr> attributes := attributes example_user @ [(''traits_closeio/id'', JStr ''cont_1'')] \<rparr> \<rparr>"

text \<open>A cache that already links the example account and user, and a user envelope
  whose write payload names no parent lead.\<close>

definition cached_util :: FilterUtil where
  "cached_util =
     example_util\<lparr> cache := (\<lambda>k. if k = ''acc1'' then JStr ''lead_9''
                                else if k = ''usr1'' then JStr ''cont_9'' else JUndefined) \<rparr>"

definition unlinked_user_envelope :: user_update_envelope where
  "unlinked_user_envelope = example_user_envelope\<lparr> cioContactWrite := [(''name'', JStr ''Jo'')] \<rparr>"










text \<open>For the mapping util: a URL constructor that knows one URL and throws on any other
  string, a util with two lead rules, one whose only lead rule is the empty object, one
  whose lead rule writes the Hull name to the field \<open>id\<close>, a Hull account that
  carries its Close.io id, and the lead it came from.\<close>

definition example_new_URL :: "string \<Rightarrow> error + URL" where
  "example_new_URL s =
     (if s = ''https://www.acme.com/about''
      then Inr \<lparr> href = s, hostname = ''www.acme.com'' \<rparr>
      else Inl TypeError)"

definition example_mapping_util :: MappingUtil where
  "example_mapping_util =
     \<lparr> attributeMappings = Some
         \<lparr> lead_attributes_outbound =
             Present [\<lparr> hull_field_name = Some ''domain'', closeio_field_name = Some ''url'' \<rparr>,
                      \<lparr> hull_field_name = Some ''support_email'',
                        closeio_field_name = Some ''emails.office'' \<rparr>],
           lead_attributes_inbound = Present [''name'', ''url'', ''status_id'', ''addresses'', ''emails''],
           contact_attributes_outbound = Present [],
           contact_attributes_inbound = Missing \<rparr>,
       leadCreationStatusId = ''N/A'',
       leadStatuses = [\<lparr> status_id = ''stat_1'', status_label = ''Potential'' \<rparr>],
       leadCustomFields = [] \<rparr>"

definition unconfigured_mapping_util :: MappingUtil where
  "unconfigured_mapping_util =
     example_mapping_util
       \<lparr> attributeMappings := Some
           \<lparr> lead_attributes_outbound = Present [\<lparr> hull_field_name = None, closeio_field_name = None \<rparr>],
             lead_attributes_inbound = Missing,
             contact_attributes_outbound = Present [],
             contact_attributes_inbound = Missing \<rparr> \<rparr>"

definition example_hull_account :: jsobj where
  "example_hull_account =
     [(''id'', JStr ''acc1''), (''name'', JStr ''Acme''), (''domain'', JStr ''acme.com''),
      (''support_email'', JStr ''help@acme.com''), (''closeio/id'', JStr ''lead_1'')]"

definition example_lead :: jsobj where
  "example_lead =
     [(''id'', JStr ''lead_1''), (''name'', JStr ''Acme''), (''url'', JStr ''http://acme.com''),
      (''status_id'', JStr ''stat_1''),
      (''addresses'', JArr [JObj [(''label'', JStr ''business''), (''city'', JStr ''Paris'')]]),
      (''date_created'', JStr ''2018-01-01''), (''date_updated'', JStr ''2018-02-01'')]"

definition id_rule_mapping_util :: MappingUtil where
  "id_rule_mapping_util =
     example_mapping_util
       \<lparr> attributeMappings := Some
           \<lparr> lead_attributes_outbound =
               Present [\<lparr> hull_field_name = Some ''name'', closeio_field_name = Some ''id'' \<rparr>],
             lead_attributes_inbound = Present [''name''],
             contact_attributes_outbound = Present [],
             contact_attributes_inbound = Missing \<rparr> \<rparr>"

section \<open>Telling envelopes apart\<close>



section \<open>Objects\<close>

lemma obj_get_obj_set: "obj_get (obj_set obj k v) k' = (if k' = k then v else obj_get obj k')"
  by (induction obj) (auto simp: obj_get_def)

lemma obj_has_obj_set: "obj_has (obj_set obj k v) k' = (k' = k \<or> obj_has obj k')"
  by (induction obj) (auto simp: obj_has_def split: if_splits)


lemma js_or_truthy: "truthy a \<Longrightarrow> js_or a b = a"
  by (simp add: js_or_def)

lemma obj_get_absent: "\<not> obj_has obj k \<Longrightarrow> obj_get obj k = JUndefined"
  by (simp add: obj_get_def obj_has_def)

lemma js_or_absent: "\<not> obj_has obj k \<Longrightarrow> js_or (obj_get obj k) b = b"
  by (simp add: obj_get_absent js_or_def)

section \<open>The segment gate\<close>

lemma intersection_set: "set (intersection a b) = set a \<inter> set b"
  by (auto simp: intersection_def uniq_def)

lemma matches_iff:
  "matchesSynchronizedAccountSegments this env p \<longleftrightarrow>
     set (map segment_id (envelope_segments env p)) \<inter> set (synchronizedAccountSegments this) \<noteq> {}"
proof -
  have "length (intersection a b) > 0 \<longleftrightarrow> set a \<inter> set b \<noteq> {}" for a b :: "string list"
    using intersection_set [of a b] by (metis length_greater_0_conv set_empty)
  then show ?thesis
    by (simp add: matchesSynchronizedAccountSegments_def Let_def)
qed

section \<open>Classification\<close>

text \<open>One step of each filter, by cases: the envelope goes to \<open>toUpdate\<close> when it
  passes the gate and an id resolves, to \<open>toSkip\<close> otherwise, and nothing else
  changes.\<close>

lemma filterAccounts_each_eq:
  "filterAccounts_each msgs this r e =
     (if matchesSynchronizedAccountSegments this (AccountUpdateEnvelope e) ''message.account_segments''
         \<and> (obj_has (entity_obj (hullAccount e)) ''closeio/id''
              \<or> \<not> isNil (cache this (entity_id (hullAccount e))))
      then \<lparr> toSkip = toSkip r, toInsert = toInsert r,
             toUpdate = toUpdate r @
               [e\<lparr> cioLeadWrite := obj_set (cioLeadWrite e) ''id''
                  (js_or (obj_get (entity_obj (hullAccount e)) ''closeio/id'')
                         (cache this (entity_id (hullAccount e)))) \<rparr>] \<rparr>
      else \<lparr> toSkip = toSkip r @
               [e\<lparr> skipReason := Some
                  (if matchesSynchronizedAccountSegments this (AccountUpdateEnvelope e) ''message.account_segments''
                   then OPERATION_SKIP_ACCOUNTDOESNTEXISTINCLOSEIO msgs
                   else OPERATION_SKIP_NOMATCHACCOUNTSEGMENTS msgs),
                opsResult := Some ''skip'' \<rparr>],
             toInsert = toInsert r, toUpdate = toUpdate r \<rparr>)"
  by (simp add: filterAccounts_each_def Let_def)

lemma filterAccounts_foldl:
  "foldl (filterAccounts_each msgs this) r es =
     \<lparr> toSkip = toSkip r @
         map (\<lambda>e. e\<lparr> skipReason := Some
                  (if matchesSynchronizedAccountSegments this (AccountUpdateEnvelope e) ''message.account_segments''
                   then OPERATION_SKIP_ACCOUNTDOESNTEXISTINCLOSEIO msgs
                   else OPERATION_SKIP_NOMATCHACCOUNTSEGMENTS msgs),
                opsResult := Some ''skip'' \<rparr>)
           (filter (\<lambda>e. \<not> (matchesSynchronizedAccountSegments this (AccountUpdateEnvelope e) ''message.account_segments''
                   \<and> (obj_has (entity_obj (hullAccount e)) ''closeio/id''
                        \<or> \<not> isNil (cache this (entity_id (hullAccount e)))))) es),
       toInsert = toInsert r,
       toUpdate = toUpdate r @
         map (\<lambda>e. e\<lparr> cioLeadWrite := obj_set (cioLeadWrite e) ''id''
                  (js_or (obj_get (entity_obj (hullAccount e)) ''closeio/id'')
                         (cache this (entity_id (hullAccount e)))) \<rparr>)
           (filter (\<lambda>e. matchesSynchronizedAccountSegments this (AccountUpdateEnvelope e) ''message.account_segments''
                   \<and> (obj_has (entity_obj (hullAccount e)) ''closeio/id''
                        \<or> \<not> isNil (cache this (entity_id (hullAccount e))))) es) \<rparr>"
proof (induction es arbitrary: r)
  case Nil
  then show ?case by simp
next
  case (Cons e es)
  show ?case
    unfolding foldl_Cons Cons.IH
    by (simp add: filterAccounts_each_eq)
qed

lemma filterUsers_each_eq:
  "filterUsers_each msgs this r e =
     (if matchesSynchronizedAccountSegments this (UserUpdateEnvelope e) ''message.account_segments''
         \<and> (obj_has (entity_obj (hullUser e)) ''traits_closeio/id''
              \<or> \<not> isNil (cache this (entity_id (hullUser e))))
      then \<lparr> toSkip = toSkip r, toInsert = toInsert r,
             toUpdate = toUpdate r @
               [e\<lparr> cioContactWrite := obj_set (cioContactWrite e) ''id''
                  (js_or (obj_get (entity_obj (hullUser e)) ''traits_closeio/id'')
                         (cache this (entity_id (hullUser e)))) \<rparr>] \<rparr>
      else \<lparr> toSkip = toSkip r @
               [e\<lparr> skipReason := Some
                  (if matchesSynchronizedAccountSegments this (UserUpdateEnvelope e) ''message.account_segments''
                   then OPERATION_SKIP_USERDOESNTEXISTINCLOSEIO msgs
                   else OPERATION_SKIP_NOMATCHACCOUNTSEGMENTSUSER msgs),
                opsResult := Some ''skip'' \<rparr>],
             toInsert = toInsert r, toUpdate = toUpdate r \<rparr>)"
  by (simp add: filterUsers_each_def Let_def)

lemma filterUsers_foldl:
  "foldl (filterUsers_each msgs this) r es =
     \<lparr> toSkip = toSkip r @
         map (\<lambda>e. e\<lparr> skipReason := Some
                  (if matchesSynchronizedAccountSegments this (UserUpdateEnvelope e) ''message.account_segments''
                   then OPERATION_SKIP_USERDOESNTEXISTINCLOSEIO msgs
                   else OPERATION_SKIP_NOMATCHACCOUNTSEGMENTSUSER msgs),
                opsResult := Some ''skip'' \<rparr>)
           (filter (\<lambda>e. \<not> (matchesSynchronizedAccountSegments this (UserUpdateEnvelope e) ''message.account_segments''
                   \<and> (obj_has (entity_obj (hullUser e)) ''traits_closeio/id''
                        \<or> \<not> isNil (cache this (entity_id (hullUser e)))))) es),
       toInsert = toInsert r,
       toUpdate = toUpdate r @
         map (\<lambda>e. e\<lparr> cioContactWrite := obj_set (cioContactWrite e) ''id''
                  (js_or (obj_get (entity_obj (hullUser e)) ''traits_closeio/id'')
                         (cache this (entity_id (hullUser e)))) \<rparr>)
           (filter (\<lambda>e. matchesSynchronizedAccountSegments this (UserUpdateEnvelope e) ''message.account_segments''
                   \<and> (obj_has (entity_obj (hullUser e)) ''traits_closeio/id''
                        \<or> \<not> isNil (cache this (entity_id (hullUser e))))) es) \<rparr>"
proof (induction es arbitrary: r)
  case Nil
  then show ?case by simp
next
  case (Cons e es)
  show ?case
    unfolding foldl_Cons Cons.IH
    by (simp add: filterUsers_each_eq)
qed

text \<open>A batch is filtered envelope by envelope: the result for a concatenation is the
  concatenation of the results.\<close>

lemma filterAccounts_append:
  "filterAccounts msgs this (xs @ ys) =
     \<lparr> toSkip = toSkip (filterAccounts msgs this xs) @ toSkip (filterAccounts msgs this ys),
       toInsert = [],
       toUpdate = toUpdate (filterAccounts msgs this xs) @ toUpdate (filterAccounts msgs this ys) \<rparr>"
  by (simp add: filterAccounts_def filterAccounts_foldl)

lemma filterUsers_append:
  "filterUsers msgs this (xs @ ys) =
     \<lparr> toSkip = toSkip (filterUsers msgs this xs) @ toSkip (filterUsers msgs this ys),
       toInsert = [],
       toUpdate = toUpdate (filterUsers msgs this xs) @ toUpdate (filterUsers msgs this ys) \<rparr>"
  by (simp add: filterUsers_def filterUsers_foldl)

lemma filterAccounts_Cons:
  "filterAccounts msgs this (e # es) =
     \<lparr> toSkip = toSkip (filterAccounts_each msgs this \<lparr> toSkip = [], toInsert = [], toUpdate = [] \<rparr> e)
                @ toSkip (filterAccounts msgs this es),
       toInsert = [],
       toUpdate = toUpdate (filterAccounts_each msgs this \<lparr> toSkip = [], toInsert = [], toUpdate = [] \<rparr> e)
                @ toUpdate (filterAccounts msgs this es) \<rparr>"
  by (simp add: filterAccounts_def filterAccounts_foldl filterAccounts_each_eq)

lemma filterUsers_Cons:
  "filterUsers msgs this (e # es) =
     \<lparr> toSkip = toSkip (filterUsers_each msgs this \<lparr> toSkip = [], toInsert = [], toUpdate = [] \<rparr> e)
                @ toSkip (filterUsers msgs this es),
       toInsert = [],
       toUpdate = toUpdate (filterUsers_each msgs this \<lparr> toSkip = [], toInsert = [], toUpdate = [] \<rparr> e)
                @ toUpdate (filterUsers msgs this es) \<rparr>"
  by (simp add: filterUsers_def filterUsers_foldl filterUsers_each_eq)

section \<open>Properties of the filters\<close>

lemmas example_defs =
  example_catalogue_def cache_mock_def example_util_def new_FilterUtil_def example_account_def
  example_user_def example_account_message_def example_user_message_def
  example_account_envelope_def example_user_envelope_def linked_account_envelope_def
  linked_user_envelope_def

text \<open>
  Claim C5. \<open>matchesSynchronizedAccountSegments\<close> is true exactly when the message's
  segment ids and the allow-list share an id, so it is false for every envelope when the
  allow-list is empty. An envelope that fails the gate is put in \<open>toSkip\<close> with the
  segment-mismatch reason, wherever it stands in the batch and whatever its attributes
  and the cache hold: no assumption is made on either.
\<close>

theorem segment_gate_fail_closed:
  "(matchesSynchronizedAccountSegments this env p \<longleftrightarrow>
      set (map segment_id (envelope_segments env p)) \<inter> set (synchronizedAccountSegments this) \<noteq> {})
   \<and> (synchronizedAccountSegments this = [] \<longrightarrow> \<not> matchesSynchronizedAccountSegments this env p)
   \<and> (\<not> matchesSynchronizedAccountSegments this (AccountUpdateEnvelope e) ''message.account_segments'' \<longrightarrow>
        filterAccounts msgs this (before @ e # after) =
          \<lparr> toSkip = toSkip (filterAccounts msgs this before)
              @ [e\<lparr> skipReason := Some (OPERATION_SKIP_NOMATCHACCOUNTSEGMENTS msgs),
                    opsResult := Some ''skip'' \<rparr>]
              @ toSkip (filterAccounts msgs this after),
            toInsert = [],
            toUpdate = toUpdate (filterAccounts msgs this before) @ toUpdate (filterAccounts msgs this after) \<rparr>)
   \<and> (\<not> matchesSynchronizedAccountSegments this (UserUpdateEnvelope u) ''message.account_segments'' \<longrightarrow>
        filterUsers msgs this (ubefore @ u # uafter) =
          \<lparr> toSkip = toSkip (filterUsers msgs this ubefore)
              @ [u\<lparr> skipReason := Some (OPERATION_SKIP_NOMATCHACCOUNTSEGMENTSUSER msgs),
                    opsResult := Some ''skip'' \<rparr>]
              @ toSkip (filterUsers msgs this uafter),
            toInsert = [],
            toUpdate = toUpdate (filterUsers msgs this ubefore) @ toUpdate (filterUsers msgs this uafter) \<rparr>)"
proof (intro conjI impI)
  show "matchesSynchronizedAccountSegments this env p \<longleftrightarrow>
      set (map segment_id (envelope_segments env p)) \<inter> set (synchronizedAccountSegments this) \<noteq> {}"
    by (rule matches_iff)
next
  assume "synchronizedAccountSegments this = []"
  then show "\<not> matchesSynchronizedAccountSegments this env p"
    by (simp add: matches_iff)
next
  assume "\<not> matchesSynchronizedAccountSegments this (AccountUpdateEnvelope e) ''message.account_segments''"
  then show "filterAccounts msgs this (before @ e # after) =
          \<lparr> toSkip = toSkip (filterAccounts msgs this before)
              @ [e\<lparr> skipReason := Some (OPERATION_SKIP_NOMATCHACCOUNTSEGMENTS msgs),
                    opsResult := Some ''skip'' \<rparr>]
              @ toSkip (filterAccounts msgs this after),
            toInsert = [],
            toUpdate = toUpdate (filterAccounts msgs this before) @ toUpdate (filterAccounts msgs this after) \<rparr>"
    by (simp add: filterAccounts_append filterAccounts_Cons filterAccounts_each_eq)
next
  assume "\<not> matchesSynchronizedAccountSegments this (UserUpdateEnvelope u) ''message.account_segments''"
  then show "filterUsers msgs this (ubefore @ u # uafter) =
          \<lparr> toSkip = toSkip (filterUsers msgs this ubefore)
              @ [u\<lparr> skipReason := Some (OPERATION_SKIP_NOMATCHACCOUNTSEGMENTSUSER msgs),
                    opsResult := Some ''skip'' \<rparr>]
              @ toSkip (filterUsers msgs this uafter),
            toInsert = [],
            toUpdate = toUpdate (filterUsers msgs this ubefore) @ toUpdate (filterUsers msgs this uafter) \<rparr>"
    by (simp add: filterUsers_append filterUsers_Cons filterUsers_each_eq)
qed

theorem segment_gate_fail_closed_witness:
  "\<not> matchesSynchronizedAccountSegments (example_util\<lparr> synchronizedAccountSegments := [] \<rparr>)
        (AccountUpdateEnvelope linked_account_envelope) ''message.account_segments''
   \<and> \<not> matchesSynchronizedAccountSegments (example_util\<lparr> synchronizedAccountSegments := [''seg2''] \<rparr>)
        (AccountUpdateEnvelope linked_account_envelope) ''message.account_segments''
   \<and> filterAccounts example_catalogue (example_util\<lparr> synchronizedAccountSegments := [''seg2''] \<rparr>)
        [linked_account_envelope] =
       \<lparr> toSkip = [linked_account_envelope\<lparr> skipReason := Some ''segment mismatch'',
                                            opsResult := Some ''skip'' \<rparr>],
         toInsert = [], toUpdate = [] \<rparr>
   \<and> \<not> matchesSynchronizedAccountSegments (example_util\<lparr> synchronizedAccountSegments := [''seg2''] \<rparr>)
        (UserUpdateEnvelope linked_user_envelope) ''message.account_segments''
   \<and> filterUsers example_catalogue (example_util\<lparr> synchronizedAccountSegments := [''seg2''] \<rparr>)
        [linked_user_envelope] =
       \<lparr> toSkip = [linked_user_envelope\<lparr> skipReason := Some ''user account segment mismatch'',
                                         opsResult := Some ''skip'' \<rparr>],
         toInsert = [], toUpdate = [] \<rparr>"
proof -
  let ?none = "example_util\<lparr> synchronizedAccountSegments := [] \<rparr>"
  let ?other = "example_util\<lparr> synchronizedAccountSegments := [''seg2''] \<rparr>"
  have a: "synchronizedAccountSegments ?none = []" by simp
  have b: "\<not> matchesSynchronizedAccountSegments ?other
        (AccountUpdateEnvelope linked_account_envelope) ''message.account_segments''"
    by (simp add: matches_iff example_defs)
  have c: "\<not> matchesSynchronizedAccountSegments ?other
        (UserUpdateEnvelope linked_user_envelope) ''message.account_segments''"
    by (simp add: matches_iff example_defs)
  have d: "filterAccounts example_catalogue ?other [] = \<lparr> toSkip = [], toInsert = [], toUpdate = [] \<rparr>"
          "filterUsers example_catalogue ?other [] = \<lparr> toSkip = [], toInsert = [], toUpdate = [] \<rparr>"
    by (simp_all add: filterAccounts_def filterUsers_def)
  have e: "OPERATION_SKIP_NOMATCHACCOUNTSEGMENTS example_catalogue = ''segment mismatch''"
          "OPERATION_SKIP_NOMATCHACCOUNTSEGMENTSUSER example_catalogue = ''user account segment mismatch''"
    by (simp_all add: example_catalogue_def)
  from segment_gate_fail_closed
         [of ?none "AccountUpdateEnvelope linked_account_envelope" "''message.account_segments''"
             linked_account_envelope example_catalogue "[]" "[]" linked_user_envelope "[]" "[]"]
       segment_gate_fail_closed
         [of ?other "AccountUpdateEnvelope linked_account_envelope" "''message.account_segments''"
             linked_account_envelope example_catalogue "[]" "[]" linked_user_envelope "[]" "[]"]
       a b c
  show ?thesis
    by (simp add: d e)
qed

text \<open>
  Claim C10. Neither filter ever fills \<open>toInsert\<close>. An envelope that passes the gate
  and has the id attribute or a cached id that is not nil goes to \<open>toUpdate\<close>, with
  the id written on its payload; every other envelope goes to \<open>toSkip\<close>.
\<close>

theorem filters_never_insert:
  "filterAccounts msgs this envelopes =
     \<lparr> toSkip =
         map (\<lambda>e. e\<lparr> skipReason := Some
                  (if matchesSynchronizedAccountSegments this (AccountUpdateEnvelope e) ''message.account_segments''
                   then OPERATION_SKIP_ACCOUNTDOESNTEXISTINCLOSEIO msgs
                   else OPERATION_SKIP_NOMATCHACCOUNTSEGMENTS msgs),
                opsResult := Some ''skip'' \<rparr>)
           (filter (\<lambda>e. \<not> (matchesSynchronizedAccountSegments this (AccountUpdateEnvelope e) ''message.account_segments''
                   \<and> (obj_has (entity_obj (hullAccount e)) ''closeio/id''
                        \<or> \<not> isNil (cache this (entity_id (hullAccount e)))))) envelopes),
       toInsert = [],
       toUpdate =
         map (\<lambda>e. e\<lparr> cioLeadWrite := obj_set (cioLeadWrite e) ''id''
                  (js_or (obj_get (entity_obj (hullAccount e)) ''closeio/id'')
                         (cache this (entity_id (hullAccount e)))) \<rparr>)
           (filter (\<lambda>e. matchesSynchronizedAccountSegments this (AccountUpdateEnvelope e) ''message.account_segments''
                   \<and> (obj_has (entity_obj (hullAccount e)) ''closeio/id''
                        \<or> \<not> isNil (cache this (entity_id (hullAccount e))))) envelopes) \<rparr>
   \<and> filterUsers msgs this uenvelopes =
     \<lparr> toSkip =
         map (\<lambda>e. e\<lparr> skipReason := Some
                  (if matchesSynchronizedAccountSegments this (UserUpdateEnvelope e) ''message.account_segments''
                   then OPERATION_SKIP_USERDOESNTEXISTINCLOSEIO msgs
                   else OPERATION_SKIP_NOMATCHACCOUNTSEGMENTSUSER msgs),
                opsResult := Some ''skip'' \<rparr>)
           (filter (\<lambda>e. \<not> (matchesSynchronizedAccountSegments this (UserUpdateEnvelope e) ''message.account_segments''
                   \<and> (obj_has (entity_obj (hullUser e)) ''traits_closeio/id''
                        \<or> \<not> isNil (cache this (entity_id (hullUser e)))))) uenvelopes),
       toInsert = [],
       toUpdate =
         map (\<lambda>e. e\<lparr> cioContactWrite := obj_set (cioContactWrite e) ''id''
                  (js_or (obj_get (entity_obj (hullUser e)) ''traits_closeio/id'')
                         (cache this (entity_id (hullUser e)))) \<rparr>)
           (filter (\<lambda>e. matchesSynchronizedAccountSegments this (UserUpdateEnvelope e) ''message.account_segments''
                   \<and> (obj_has (entity_obj (hullUser e)) ''traits_closeio/id''
                        \<or> \<not> isNil (cache this (entity_id (hullUser e))))) uenvelopes) \<rparr>"
  by (simp add: filterAccounts_def filterUsers_def filterAccounts_foldl filterUsers_foldl)

theorem filters_never_insert_witness:
  "filterAccounts example_catalogue example_util [linked_account_envelope, example_account_envelope] =
     \<lparr> toSkip = [example_account_envelope
                    \<lparr> skipReason := Some ''account does not exist in close.io'',
                      opsResult := Some ''skip'' \<rparr>],
       toInsert = [],
       toUpdate = [linked_account_envelope
                     \<lparr> cioLeadWrite := [(''name'', JStr ''Acme''), (''id'', JStr ''lead_1'')] \<rparr>] \<rparr>
   \<and> filterUsers example_catalogue example_util [example_user_envelope, linked_user_envelope] =
     \<lparr> toSkip = [example_user_envelope
                    \<lparr> skipReason := Some ''user does not exist in close.io'',
                      opsResult := Some ''skip'' \<rparr>],
       toInsert = [],
       toUpdate = [linked_user_envelope
                     \<lparr> cioContactWrite := [(''name'', JStr ''Jo''), (''lead_id'', JStr ''lead_1''),
                                            (''id'', JStr ''cont_1'')] \<rparr>] \<rparr>"
proof -
  have g: "matchesSynchronizedAccountSegments example_util (AccountUpdateEnvelope linked_account_envelope) ''message.account_segments''"
          "matchesSynchronizedAccountSegments example_util (AccountUpdateEnvelope example_account_envelope) ''message.account_segments''"
          "matchesSynchronizedAccountSegments example_util (UserUpdateEnvelope linked_user_envelope) ''message.account_segments''"
          "matchesSynchronizedAccountSegments example_util (UserUpdateEnvelope example_user_envelope) ''message.account_segments''"
    by (simp_all add: matches_iff example_defs)
  have h: "obj_has (entity_obj (hullAccount linked_account_envelope)) ''closeio/id''"
          "\<not> obj_has (entity_obj (hullAccount example_account_envelope)) ''closeio/id''"
          "obj_has (entity_obj (hullUser linked_user_envelope)) ''traits_closeio/id''"
          "\<not> obj_has (entity_obj (hullUser example_user_envelope)) ''traits_closeio/id''"
    by (simp_all add: obj_has_def entity_obj_def example_defs)
  have n: "\<And>k. isNil (cache example_util k)"
    by (simp add: example_defs)
  have v: "obj_set (cioLeadWrite linked_account_envelope) ''id''
             (js_or (obj_get (entity_obj (hullAccount linked_account_envelope)) ''closeio/id'')
                    (cache example_util (entity_id (hullAccount linked_account_envelope))))
           = [(''name'', JStr ''Acme''), (''id'', JStr ''lead_1'')]"
          "obj_set (cioContactWrite linked_user_envelope) ''id''
             (js_or (obj_get (entity_obj (hullUser linked_user_envelope)) ''traits_closeio/id'')
                    (cache example_util (entity_id (hullUser linked_user_envelope))))
           = [(''name'', JStr ''Jo''), (''lead_id'', JStr ''lead_1''), (''id'', JStr ''cont_1'')]"
    by (simp_all add: obj_get_def js_or_def entity_obj_def example_defs)
  have m: "OPERATION_SKIP_ACCOUNTDOESNTEXISTINCLOSEIO example_catalogue = ''account does not exist in close.io''"
          "OPERATION_SKIP_USERDOESNTEXISTINCLOSEIO example_catalogue = ''user does not exist in close.io''"
    by (simp_all add: example_catalogue_def)
  from filters_never_insert
         [of example_catalogue example_util "[linked_account_envelope, example_account_envelope]"
             "[example_user_envelope, linked_user_envelope]"]
  show ?thesis
    by (simp add: g h n v m)
qed








text \<open>
  Claim C4. An envelope that passes the gate and has the id attribute (\<open>closeio/id\<close>
  on an account, \<open>traits_closeio/id\<close> on a user) or a cached id that is not nil is
  put in \<open>toUpdate\<close> and in no other list, wherever it stands in the batch. The id
  field of its write payload then holds \<open>attribute || cached\<close>: the attribute when
  it is truthy (an id is a string that is not empty), whatever the cache holds, and the
  cached id when the entity has no such attribute.
\<close>

theorem resolved_identity_is_update:
  "(matchesSynchronizedAccountSegments this (AccountUpdateEnvelope e) ''message.account_segments''
      \<and> (obj_has (entity_obj (hullAccount e)) ''closeio/id''
            \<or> \<not> isNil (cache this (entity_id (hullAccount e))))
    \<longrightarrow>
      filterAccounts msgs this (before @ e # after) =
        \<lparr> toSkip = toSkip (filterAccounts msgs this before) @ toSkip (filterAccounts msgs this after),
          toInsert = [],
          toUpdate = toUpdate (filterAccounts msgs this before)
            @ [e\<lparr> cioLeadWrite := obj_set (cioLeadWrite e) ''id''
                   (js_or (obj_get (entity_obj (hullAccount e)) ''closeio/id'')
                          (cache this (entity_id (hullAccount e)))) \<rparr>]
            @ toUpdate (filterAccounts msgs this after) \<rparr>
      \<and> obj_get (obj_set (cioLeadWrite e) ''id''
                   (js_or (obj_get (entity_obj (hullAccount e)) ''closeio/id'')
                          (cache this (entity_id (hullAccount e))))) ''id''
          = js_or (obj_get (entity_obj (hullAccount e)) ''closeio/id'')
                  (cache this (entity_id (hullAccount e)))
      \<and> (truthy (obj_get (entity_obj (hullAccount e)) ''closeio/id'') \<longrightarrow>
            js_or (obj_get (entity_obj (hullAccount e)) ''closeio/id'')
                  (cache this (entity_id (hullAccount e)))
              = obj_get (entity_obj (hullAccount e)) ''closeio/id'')
      \<and> (\<not> obj_has (entity_obj (hullAccount e)) ''closeio/id'' \<longrightarrow>
            js_or (obj_get (entity_obj (hullAccount e)) ''closeio/id'')
                  (cache this (entity_id (hullAccount e)))
              = cache this (entity_id (hullAccount e))))
   \<and>
   (matchesSynchronizedAccountSegments this (UserUpdateEnvelope u) ''message.account_segments''
      \<and> (obj_has (entity_obj (hullUser u)) ''traits_closeio/id''
            \<or> \<not> isNil (cache this (entity_id (hullUser u))))
    \<longrightarrow>
      filterUsers msgs this (ubefore @ u # uafter) =
        \<lparr> toSkip = toSkip (filterUsers msgs this ubefore) @ toSkip (filterUsers msgs this uafter),
          toInsert = [],
          toUpdate = toUpdate (filterUsers msgs this ubefore)
            @ [u\<lparr> cioContactWrite := obj_set (cioContactWrite u) ''id''
                   (js_or (obj_get (entity_obj (hullUser u)) ''traits_closeio/id'')
                          (cache this (entity_id (hullUser u)))) \<rparr>]
            @ toUpdate (filterUsers msgs this uafter) \<rparr>
      \<and> obj_get (obj_set (cioContactWrite u) ''id''
                   (js_or (obj_get (entity_obj (hullUser u)) ''traits_closeio/id'')
                          (cache this (entity_id (hullUser u))))) ''id''
          = js_or (obj_get (entity_obj (hullUser u)) ''traits_closeio/id'')
                  (cache this (entity_id (hullUser u)))
      \<and> (truthy (obj_get (entity_obj (hullUser u)) ''traits_closeio/id'') \<longrightarrow>
            js_or (obj_get (entity_obj (hullUser u)) ''traits_closeio/id'')
                  (cache this (entity_id (hullUser u)))
              = obj_get (entity_obj (hullUser u)) ''traits_closeio/id'')
      \<and> (\<not> obj_has (entity_obj (hullUser u)) ''traits_closeio/id'' \<longrightarrow>
            js_or (obj_get (entity_obj (hullUser u)) ''traits_closeio/id'')
                  (cache this (entity_id (hullUser u)))
              = cache this (entity_id (hullUser u))))"
proof (intro conjI impI)
  assume "matchesSynchronizedAccountSegments this (AccountUpdateEnvelope e) ''message.account_segments''
      \<and> (obj_has (entity_obj (hullAccount e)) ''closeio/id''
            \<or> \<not> isNil (cache this (entity_id (hullAccount e))))"
  then show "filterAccounts msgs this (before @ e # after) =
        \<lparr> toSkip = toSkip (filterAccounts msgs this before) @ toSkip (filterAccounts msgs this after),
          toInsert = [],
          toUpdate = toUpdate (filterAccounts msgs this before)
            @ [e\<lparr> cioLeadWrite := obj_set (cioLeadWrite e) ''id''
                   (js_or (obj_get (entity_obj (hullAccount e)) ''closeio/id'')
                          (cache this (entity_id (hullAccount e)))) \<rparr>]
            @ toUpdate (filterAccounts msgs this after) \<rparr>"
    by (simp add: filterAccounts_append filterAccounts_Cons filterAccounts_each_eq)
next
  assume "matchesSynchronizedAccountSegments this (UserUpdateEnvelope u) ''message.account_segments''
      \<and> (obj_has (entity_obj (hullUser u)) ''traits_closeio/id''
            \<or> \<not> isNil (cache this (entity_id (hullUser u))))"
  then show "filterUsers msgs this (ubefore @ u # uafter) =
        \<lparr> toSkip = toSkip (filterUsers msgs this ubefore) @ toSkip (filterUsers msgs this uafter),
          toInsert = [],
          toUpdate = toUpdate (filterUsers msgs this ubefore)
            @ [u\<lparr> cioContactWrite := obj_set (cioContactWrite u) ''id''
                   (js_or (obj_get (entity_obj (hullUser u)) ''traits_closeio/id'')
                          (cache this (entity_id (hullUser u)))) \<rparr>]
            @ toUpdate (filterUsers msgs this uafter) \<rparr>"
    by (simp add: filterUsers_append filterUsers_Cons filterUsers_each_eq)
qed (simp_all add: obj_get_obj_set js_or_truthy js_or_absent)

lemma filter_nil:
  "filterAccounts msgs this [] = \<lparr> toSkip = [], toInsert = [], toUpdate = [] \<rparr>"
  "filterUsers msgs this [] = \<lparr> toSkip = [], toInsert = [], toUpdate = [] \<rparr>"
  by (simp_all add: filterAccounts_def filterUsers_def)

theorem resolved_identity_is_update_witness:
  "filterAccounts example_catalogue cached_util [linked_account_envelope] =
     \<lparr> toSkip = [], toInsert = [],
       toUpdate = [linked_account_envelope
                     \<lparr> cioLeadWrite := [(''name'', JStr ''Acme''), (''id'', JStr ''lead_1'')] \<rparr>] \<rparr>
   \<and> filterAccounts example_catalogue cached_util [example_account_envelope] =
     \<lparr> toSkip = [], toInsert = [],
       toUpdate = [example_account_envelope
                     \<lparr> cioLeadWrite := [(''name'', JStr ''Acme''), (''id'', JStr ''lead_9'')] \<rparr>] \<rparr>
   \<and> filterUsers example_catalogue cached_util [linked_user_envelope] =
     \<lparr> toSkip = [], toInsert = [],
       toUpdate = [linked_user_envelope
                     \<lparr> cioContactWrite := [(''name'', JStr ''Jo''), (''lead_id'', JStr ''lead_1''),
                                            (''id'', JStr ''cont_1'')] \<rparr>] \<rparr>
   \<and> filterUsers example_catalogue cached_util [example_user_envelope] =
     \<lparr> toSkip = [], toInsert = [],
       toUpdate = [example_user_envelope
                     \<lparr> cioContactWrite := [(''name'', JStr ''Jo''), (''lead_id'', JStr ''lead_1''),
                                            (''id'', JStr ''cont_9'')] \<rparr>] \<rparr>"
proof -
  have g: "matchesSynchronizedAccountSegments cached_util (AccountUpdateEnvelope linked_account_envelope) ''message.account_segments''"
          "matchesSynchronizedAccountSegments cached_util (AccountUpdateEnvelope example_account_envelope) ''message.account_segments''"
          "matchesSynchronizedAccountSegments cached_util (UserUpdateEnvelope linked_user_envelope) ''message.account_segments''"
          "matchesSynchronizedAccountSegments cached_util (UserUpdateEnvelope example_user_envelope) ''message.account_segments''"
    by (simp_all add: matches_iff cached_util_def example_defs)
  have h: "obj_has (entity_obj (hullAccount linked_account_envelope)) ''closeio/id''"
          "\<not> isNil (cache cached_util (entity_id (hullAccount example_account_envelope)))"
          "obj_has (entity_obj (hullUser linked_user_envelope)) ''traits_closeio/id''"
          "\<not> isNil (cache cached_util (entity_id (hullUser example_user_envelope)))"
    by (simp_all add: obj_has_def entity_obj_def cached_util_def example_defs)
  have v: "obj_set (cioLeadWrite linked_account_envelope) ''id''
             (js_or (obj_get (entity_obj (hullAccount linked_account_envelope)) ''closeio/id'')
                    (cache cached_util (entity_id (hullAccount linked_account_envelope))))
           = [(''name'', JStr ''Acme''), (''id'', JStr ''lead_1'')]"
          "obj_set (cioLeadWrite example_account_envelope) ''id''
             (js_or (obj_get (entity_obj (hullAccount example_account_envelope)) ''closeio/id'')
                    (cache cached_util (entity_id (hullAccount example_account_envelope))))
           = [(''name'', JStr ''Acme''), (''id'', JStr ''lead_9'')]"
          "obj_set (cioContactWrite linked_user_envelope) ''id''
             (js_or (obj_get (entity_obj (hullUser linked_user_envelope)) ''traits_closeio/id'')
                    (cache cached_util (entity_id (hullUser linked_user_envelope))))
           = [(''name'', JStr ''Jo''), (''lead_id'', JStr ''lead_1''), (''id'', JStr ''cont_1'')]"
          "obj_set (cioContactWrite example_user_envelope) ''id''
             (js_or (obj_get (entity_obj (hullUser example_user_envelope)) ''traits_closeio/id'')
                    (cache cached_util (entity_id (hullUser example_user_envelope))))
           = [(''name'', JStr ''Jo''), (''lead_id'', JStr ''lead_1''), (''id'', JStr ''cont_9'')]"
    by (simp_all add: obj_get_def js_or_def entity_obj_def cached_util_def example_defs)
  from resolved_identity_is_update
         [of cached_util linked_account_envelope example_catalogue "[]" "[]" linked_user_envelope "[]" "[]"]
       resolved_identity_is_update
         [of cached_util example_account_envelope example_catalogue "[]" "[]" example_user_envelope "[]" "[]"]
       g h
  show ?thesis
    by (simp add: filter_nil v)
qed

text \<open>
  Claim C1, on the code. The account of the unit test "should identify a lead to insert"
  (allowed segment, no \<open>closeio/id\<close>, nothing cached) is skipped, not inserted, and so
  is the user of "should identify a contact to insert", whose payload names its parent
  lead.
\<close>

theorem new_entities_are_skipped:
  "filterAccounts msgs example_util [example_account_envelope] =
     \<lparr> toSkip = [example_account_envelope
                    \<lparr> skipReason := Some (OPERATION_SKIP_ACCOUNTDOESNTEXISTINCLOSEIO msgs),
                      opsResult := Some ''skip'' \<rparr>],
       toInsert = [], toUpdate = [] \<rparr>
   \<and> filterUsers msgs example_util [example_user_envelope] =
     \<lparr> toSkip = [example_user_envelope
                    \<lparr> skipReason := Some (OPERATION_SKIP_USERDOESNTEXISTINCLOSEIO msgs),
                      opsResult := Some ''skip'' \<rparr>],
       toInsert = [], toUpdate = [] \<rparr>"
proof -
  have g: "matchesSynchronizedAccountSegments example_util (AccountUpdateEnvelope example_account_envelope) ''message.account_segments''"
          "matchesSynchronizedAccountSegments example_util (UserUpdateEnvelope example_user_envelope) ''message.account_segments''"
    by (simp_all add: matches_iff example_defs)
  have h: "\<not> obj_has (entity_obj (hullAccount example_account_envelope)) ''closeio/id''"
          "isNil (cache example_util (entity_id (hullAccount example_account_envelope)))"
          "\<not> obj_has (entity_obj (hullUser example_user_envelope)) ''traits_closeio/id''"
          "isNil (cache example_util (entity_id (hullUser example_user_envelope)))"
    by (simp_all add: obj_has_def entity_obj_def example_defs)
  show ?thesis
    by (simp add: filterAccounts_Cons filterUsers_Cons filterAccounts_each_eq filterUsers_each_eq
        filter_nil g h)
qed

text \<open>
  Claim C6, on the code. The user of the unit test "should identify a contact to skip if
  not linked to a lead" is skipped, with the catalogue's
  \<open>OPERATION_SKIP_USERDOESNTEXISTINCLOSEIO\<close> text as the reason; the test expects the
  text of \<open>OPERATION_SKIP_NOLINKEDACCOUNT\<close>, another entry of the catalogue.
\<close>

theorem unlinked_user_skip_reason:
  "filterUsers msgs example_util [unlinked_user_envelope] =
     \<lparr> toSkip = [unlinked_user_envelope
                    \<lparr> skipReason := Some (OPERATION_SKIP_USERDOESNTEXISTINCLOSEIO msgs),
                      opsResult := Some ''skip'' \<rparr>],
       toInsert = [], toUpdate = [] \<rparr>
   \<and> OPERATION_SKIP_USERDOESNTEXISTINCLOSEIO example_catalogue
        \<noteq> OPERATION_SKIP_NOLINKEDACCOUNT example_catalogue"
proof -
  have g: "matchesSynchronizedAccountSegments example_util (UserUpdateEnvelope unlinked_user_envelope) ''message.account_segments''"
    by (simp add: matches_iff unlinked_user_envelope_def example_defs)
  have h: "\<not> obj_has (entity_obj (hullUser unlinked_user_envelope)) ''traits_closeio/id''"
          "isNil (cache example_util (entity_id (hullUser unlinked_user_envelope)))"
    by (simp_all add: obj_has_def entity_obj_def unlinked_user_envelope_def example_defs)
  show ?thesis
    by (simp add: filterUsers_Cons filterUsers_each_eq filter_nil g h example_catalogue_def)
qed

section \<open>Properties of deduplication\<close>









































section \<open>Properties of the mapping util\<close>

text \<open>
  Claim C8. \<open>normalizeUrl\<close> never throws: whatever the URL constructor does, the result
  is a value. It is the hostname of the URL when the constructor returns one, and the
  original string when the constructor throws.
\<close>

theorem normalizeUrl_total:
  "(\<exists>r. normalizeUrl new_URL original = Inr r)
   \<and> (\<forall>closeUrl. new_URL original = Inr closeUrl \<longrightarrow>
          normalizeUrl new_URL original = Inr (hostname closeUrl))
   \<and> (\<forall>e. new_URL original = Inl e \<longrightarrow> normalizeUrl new_URL original = Inr original)"
  by (cases "new_URL original") (simp_all add: normalizeUrl_def try_catch_def)

theorem normalizeUrl_total_witness:
  "normalizeUrl example_new_URL ''https://www.acme.com/about'' = Inr ''www.acme.com''
   \<and> normalizeUrl example_new_URL ''acme'' = Inr ''acme''"
proof -
  have a: "example_new_URL ''https://www.acme.com/about''
             = Inr \<lparr> href = ''https://www.acme.com/about'', hostname = ''www.acme.com'' \<rparr>"
    by (simp add: example_new_URL_def)
  have b: "example_new_URL ''acme'' = Inl TypeError"
    by (simp add: example_new_URL_def)
  from normalizeUrl_total [of example_new_URL "''https://www.acme.com/about''"]
       normalizeUrl_total [of example_new_URL "''acme''"] a b
  show ?thesis by simp
qed

text \<open>
  Claim C7, as amended. \<open>mapToServiceObject\<close> of \<open>mapping-util.js\<close> fails with the
  \<open>LogicError\<close> of the catalogue's \<open>MAPPING_NOOUTBOUNDFIELDS\<close> message, naming the
  object type and carrying the Hull object, when the attribute mappings are \<open>null\<close>,
  or the rule list of the type is missing, empty, or the one empty rule object.
\<close>

theorem no_outbound_rules_is_logic_error:
  "attributeMappings this = None
   \<or> (\<exists>am. attributeMappings this = Some am
        \<and> (attributes_outbound am objType = Missing
             \<or> attributes_outbound am objType = Present []
             \<or> attributes_outbound am objType
                 = Present [\<lparr> hull_field_name = None, closeio_field_name = None \<rparr>]))
   \<Longrightarrow> mapToServiceObject msgs this objType hullObject =
         Inl (LogicError (MAPPING_NOOUTBOUNDFIELDS msgs) ''MappingUtil.mapToServiceObject''
                objType hullObject)"
  by (auto simp: mapToServiceObject_def rule_keys_def)

lemma toLowerCase_Lead: "toLowerCase ''Lead'' = ''lead''"
  by code_simp

lemma toLowerCase_Contact: "toLowerCase ''Contact'' = ''contact''"
  by code_simp

lemma attributes_outbound_Lead: "attributes_outbound am ''Lead'' = lead_attributes_outbound am"
  by (simp add: attributes_outbound_def toLowerCase_Lead)

lemma attributes_outbound_Contact: "attributes_outbound am ''Contact'' = contact_attributes_outbound am"
  by (simp add: attributes_outbound_def toLowerCase_Contact)

theorem no_outbound_rules_is_logic_error_witness:
  "mapToServiceObject example_catalogue unconfigured_mapping_util ''Lead'' example_hull_account =
     Inl (LogicError ''no outbound fields'' ''MappingUtil.mapToServiceObject'' ''Lead''
            example_hull_account)
   \<and> mapToServiceObject example_catalogue unconfigured_mapping_util ''Contact'' example_hull_account =
     Inl (LogicError ''no outbound fields'' ''MappingUtil.mapToServiceObject'' ''Contact''
            example_hull_account)
   \<and> mapToServiceObject example_catalogue (unconfigured_mapping_util\<lparr> attributeMappings := None \<rparr>)
        ''Lead'' example_hull_account =
     Inl (LogicError ''no outbound fields'' ''MappingUtil.mapToServiceObject'' ''Lead''
            example_hull_account)"
proof -
  have a: "\<exists>am. attributeMappings unconfigured_mapping_util = Some am
        \<and> (attributes_outbound am ''Lead'' = Missing
             \<or> attributes_outbound am ''Lead'' = Present []
             \<or> attributes_outbound am ''Lead''
                 = Present [\<lparr> hull_field_name = None, closeio_field_name = None \<rparr>])"
    by (simp add: unconfigured_mapping_util_def attributes_outbound_Lead)
  have b: "\<exists>am. attributeMappings unconfigured_mapping_util = Some am
        \<and> (attributes_outbound am ''Contact'' = Missing
             \<or> attributes_outbound am ''Contact'' = Present []
             \<or> attributes_outbound am ''Contact''
                 = Present [\<lparr> hull_field_name = None, closeio_field_name = None \<rparr>])"
    by (simp add: unconfigured_mapping_util_def attributes_outbound_Contact)
  have c: "attributeMappings (unconfigured_mapping_util\<lparr> attributeMappings := None \<rparr>) = None"
    by simp
  have m: "MAPPING_NOOUTBOUNDFIELDS example_catalogue = ''no outbound fields''"
    by (simp add: example_catalogue_def)
  show ?thesis
    using no_outbound_rules_is_logic_error [OF disjI2, OF a, of example_catalogue example_hull_account]
          no_outbound_rules_is_logic_error [OF disjI2, OF b, of example_catalogue example_hull_account]
          no_outbound_rules_is_logic_error [OF disjI1, OF c, of example_catalogue "''Lead''" example_hull_account]
    by (simp add: m)
qed

text \<open>
  Claim C7 as stated fails for \<open>mapToServiceObject\<close> of \<open>unnamed/part_001\<close>: with
  the empty rule object as the only lead rule, and with no contact rule, it returns the
  payload of the default fields.
\<close>

theorem revised_util_maps_without_rules:
  "mapToServiceObject_001 example_catalogue unconfigured_mapping_util ''Lead'' example_hull_account =
     Inr [(''name'', JStr ''Acme''), (''url'', JStr ''acme.com''), (''id'', JStr ''lead_1'')]
   \<and> mapToServiceObject_001 example_catalogue unconfigured_mapping_util ''Contact''
        (example_hull_account @ [(''account'', JObj [(''closeio/id'', JStr ''lead_1'')])]) =
     Inr [(''name'', JStr ''Acme''), (''lead_id'', JStr ''lead_1'')]"
  by (simp add: mapToServiceObject_001_def customized_mapping_001_def unconfigured_mapping_util_def
      example_mapping_util_def attributes_outbound_Lead attributes_outbound_Contact usable_rule_def
      lead_defaults_def contact_defaults_001_def contact_id_def example_hull_account_def
      obj_get_def obj_has_def js_or_def Let_def)

lemma reduce_Inr:
  "(\<And>acc x. x \<in> set xs \<Longrightarrow> \<exists>acc'. f acc x = Inr acc') \<Longrightarrow> \<exists>r. reduce f xs acc = Inr r"
proof (induction xs arbitrary: acc)
  case Nil
  then show ?case by simp
next
  case (Cons x xs)
  from Cons.prems [of x acc] obtain acc' where a: "f acc x = Inr acc'" by auto
  from Cons.IH [of acc'] Cons.prems obtain r where "reduce f xs acc' = Inr r" by auto
  with a show ?case by simp
qed

lemma addresses_not_null:
  "obj_get serviceObject ''addresses'' \<noteq> JNull \<Longrightarrow>
     lodash_get_default (JObj serviceObject) ''addresses'' (JArr []) \<noteq> JNull"
  by (simp add: lodash_get_default_def lodash_get_def Let_def)

lemma apply_inbound_field_Inr:
  assumes "m = ''addresses'' \<longrightarrow> obj_get serviceObject ''addresses'' \<noteq> JNull"
  shows "\<exists>h. apply_inbound_field snakeCase this serviceObject hullAttrs m = Inr h"
proof (cases "m = ''addresses''")
  case True
  with assms have "lodash_get_default (JObj serviceObject) ''addresses'' (JArr []) \<noteq> JNull"
    by (simp add: addresses_not_null)
  with True show ?thesis
    by (simp add: apply_inbound_field_def Let_def)
next
  case False
  then show ?thesis
    by (simp add: apply_inbound_field_def Let_def split: option.split)
qed

lemma applyMapping_001_Inr:
  "''addresses'' \<in> set mapping \<longrightarrow> obj_get serviceObject ''addresses'' \<noteq> JNull \<Longrightarrow>
     \<exists>h. applyMapping_001 snakeCase this mapping serviceObject = Inr h"
  unfolding applyMapping_001_def
  by (rule reduce_Inr) (rule apply_inbound_field_Inr, blast)

lemma inbound_id:
  assumes "attributeMappings this = Some am"
    and "obj_has lead ''id''"
    and "''addresses'' \<in> set (case lead_attributes_inbound am of Present l \<Rightarrow> l | _ \<Rightarrow> [])
           \<longrightarrow> obj_get lead ''addresses'' \<noteq> JNull"
  shows "\<exists>attrs. mapLeadToHullAccountAttributes_001 snakeCase this lead = Inr attrs
           \<and> obj_get attrs ''closeio/id'' = attribute_write (obj_get lead ''id'') ''set''"
proof -
  obtain h where "applyMapping_001 snakeCase this
      (case lead_attributes_inbound am of Present l \<Rightarrow> l | _ \<Rightarrow> []) lead = Inr h"
    using applyMapping_001_Inr [OF assms(3)] by blast
  then show ?thesis
    using assms(1,2)
    by (simp add: mapLeadToHullAccountAttributes_001_def Let_def obj_get_obj_set)
qed

lemma split_first_head:
  assumes "startsWith s (c # t)" and "c \<noteq> CHR ''.''"
  shows "\<exists>rest. split_first s = c # rest"
proof -
  from assms(1) obtain s' where "s = c # s'"
    by (cases s) (auto simp: startsWith_def)
  with assms(2) show ?thesis by (simp add: split_first_def)
qed

lemma array_name_not_id:
  assumes "startsWith n ''emails'' \<or> startsWith n ''phones'' \<or> startsWith n ''urls''"
  shows "split_first n \<noteq> ''id''"
  using assms split_first_head [of n "CHR ''e''" "''mails''"]
    split_first_head [of n "CHR ''p''" "''hones''"] split_first_head [of n "CHR ''u''" "''rls''"]
  by auto

lemma apply_outbound_rule_keeps_id:
  assumes "closeio_field_name m \<noteq> Some ''id''"
  shows "obj_get (apply_outbound_rule hullObject svcObject m) ''id'' = obj_get svcObject ''id''"
proof (cases "closeio_field_name m")
  case None
  then show ?thesis
    by (simp add: apply_outbound_rule_def Let_def obj_get_obj_set)
next
  case (Some n)
  with assms have n: "n \<noteq> ''id''" by simp
  show ?thesis
  proof (cases "startsWith n ''emails'' \<or> startsWith n ''phones'' \<or> startsWith n ''urls''")
    case True
    then have "split_first n \<noteq> ''id''" by (rule array_name_not_id)
    then have "''id'' \<noteq> split_first n" by (rule not_sym)
    with True Some show ?thesis
      by (simp add: apply_outbound_rule_def Let_def obj_get_obj_set)
  next
    case False
    with Some n show ?thesis
      by (auto simp: apply_outbound_rule_def Let_def obj_get_obj_set)
  qed
qed

lemma outbound_rules_keep_id:
  "\<forall>m\<in>set mappings. closeio_field_name m \<noteq> Some ''id'' \<Longrightarrow>
     obj_get (foldl (apply_outbound_rule hullObject) svcObject mappings) ''id'' = obj_get svcObject ''id''"
  by (induction mappings arbitrary: svcObject) (simp_all add: apply_outbound_rule_keeps_id)

lemma lead_defaults_id:
  "\<not> isNil (obj_get hullObject ''closeio/id'') \<Longrightarrow>
     obj_get (lead_defaults this hullObject) ''id'' = obj_get hullObject ''closeio/id''"
  by (simp add: lead_defaults_def Let_def obj_get_def)

lemma outbound_id:
  assumes "attributeMappings this = Some am"
    and "\<not> isNil (obj_get hullObject ''closeio/id'')"
    and "\<forall>m\<in>set (case lead_attributes_outbound am of Present l \<Rightarrow> l | _ \<Rightarrow> []).
           usable_rule m \<longrightarrow> closeio_field_name m \<noteq> Some ''id''"
  shows "\<exists>payload. mapToServiceObject_001 msgs this ''Lead'' hullObject = Inr payload
           \<and> obj_get payload ''id'' = obj_get hullObject ''closeio/id''"
proof -
  let ?rules = "filter usable_rule (case lead_attributes_outbound am of Present l \<Rightarrow> l | _ \<Rightarrow> [])"
  have "\<forall>m\<in>set ?rules. closeio_field_name m \<noteq> Some ''id''"
    using assms(3) by simp
  then have "obj_get (foldl (apply_outbound_rule hullObject) (lead_defaults this hullObject) ?rules) ''id''
      = obj_get (lead_defaults this hullObject) ''id''"
    by (rule outbound_rules_keep_id)
  then show ?thesis
    using assms(1,2)
    by (simp add: mapToServiceObject_001_def customized_mapping_001_def attributes_outbound_Lead
        Let_def lead_defaults_id)
qed

text \<open>
  Claim C9, as amended (both functions of \<open>unnamed/part_001\<close>). Let the util have
  attribute mappings, the lead have an id that is not \<open>null\<close>, its \<open>addresses\<close> be
  not \<open>null\<close> if they are mapped inbound, and no usable outbound lead rule write to
  the field \<open>id\<close>. Then the inbound mapping returns attributes whose \<open>closeio/id\<close>
  is the lead's id, to be set; and for a Hull account whose \<open>closeio/id\<close> is that id
  the outbound mapping returns a payload whose \<open>id\<close> is the same id.
\<close>

theorem lead_id_round_trip:
  assumes "attributeMappings this = Some am"
    and "obj_has lead ''id''"
    and "\<not> isNil (obj_get lead ''id'')"
    and "''addresses'' \<in> set (case lead_attributes_inbound am of Present l \<Rightarrow> l | _ \<Rightarrow> [])
           \<longrightarrow> obj_get lead ''addresses'' \<noteq> JNull"
    and "\<forall>m\<in>set (case lead_attributes_outbound am of Present l \<Rightarrow> l | _ \<Rightarrow> []).
           usable_rule m \<longrightarrow> closeio_field_name m \<noteq> Some ''id''"
    and "obj_get account_object ''closeio/id'' = obj_get lead ''id''"
  shows "\<exists>attrs payload.
           mapLeadToHullAccountAttributes_001 snakeCase this lead = Inr attrs
           \<and> obj_get attrs ''closeio/id'' = attribute_write (obj_get lead ''id'') ''set''
           \<and> mapToServiceObject_001 msgs this ''Lead'' account_object = Inr payload
           \<and> obj_get payload ''id'' = obj_get lead ''id''"
proof -
  obtain attrs where a: "mapLeadToHullAccountAttributes_001 snakeCase this lead = Inr attrs"
      "obj_get attrs ''closeio/id'' = attribute_write (obj_get lead ''id'') ''set''"
    using inbound_id [OF assms(1,2,4)] by blast
  have "\<not> isNil (obj_get account_object ''closeio/id'')"
    using assms(3,6) by simp
  then obtain payload where p: "mapToServiceObject_001 msgs this ''Lead'' account_object = Inr payload"
      "obj_get payload ''id'' = obj_get account_object ''closeio/id''"
    using outbound_id [OF assms(1) _ assms(5)] by blast
  from a p assms(6) show ?thesis by simp
qed

lemmas mapping_eval =
  mapToServiceObject_001_def customized_mapping_001_def attributes_outbound_Lead
  attributes_outbound_Contact usable_rule_def lead_defaults_def contact_defaults_001_def
  contact_id_def apply_outbound_rule_def field_key_def lodash_get_def lodash_get_default_def
  startsWith_def split_first_def split_second_def concat_value_def
  mapLeadToHullAccountAttributes_001_def applyMapping_001_def apply_inbound_field_def
  getHumanFieldName_def attribute_write_def forEach_values_def length_positive_def
  own_entries_def is_array_index_def is_digit_def nat_of_digits_def index_of_def
  obj_get_def obj_has_def js_or_def Let_def

theorem lead_id_round_trip_witness:
  "mapLeadToHullAccountAttributes_001 (\<lambda>s. s) example_mapping_util example_lead =
     Inr [(''closeio/name'', JObj [(''value'', JStr ''Acme''), (''operation'', JStr ''set'')]),
          (''closeio/url'', JObj [(''value'', JStr ''http://acme.com''), (''operation'', JStr ''set'')]),
          (''closeio/status'', JObj [(''value'', JStr ''Potential''), (''operation'', JStr ''set'')]),
          (''closeio/address_business_city'',
             JObj [(''value'', JStr ''Paris''), (''operation'', JStr ''set'')]),
          (''closeio/id'', JObj [(''value'', JStr ''lead_1''), (''operation'', JStr ''set'')]),
          (''name'', JObj [(''value'', JStr ''Acme''), (''operation'', JStr ''setIfNull'')]),
          (''closeio/created_at'',
             JObj [(''value'', JStr ''2018-01-01''), (''operation'', JStr ''setIfNull'')]),
          (''closeio/updated_at'',
             JObj [(''value'', JStr ''2018-02-01''), (''operation'', JStr ''set'')])]
   \<and> obj_get example_hull_account ''closeio/id'' = obj_get example_lead ''id''
   \<and> mapToServiceObject_001 example_catalogue example_mapping_util ''Lead'' example_hull_account =
     Inr [(''name'', JStr ''Acme''), (''url'', JStr ''acme.com''), (''id'', JStr ''lead_1''),
          (''emails'', JArr [JObj [(''type'', JStr ''office''), (''email'', JStr ''help@acme.com'')]])]"
proof -
  let ?am = "\<lparr> lead_attributes_outbound =
             Present [\<lparr> hull_field_name = Some ''domain'', closeio_field_name = Some ''url'' \<rparr>,
                      \<lparr> hull_field_name = Some ''support_email'',
                        closeio_field_name = Some ''emails.office'' \<rparr>],
           lead_attributes_inbound = Present [''name'', ''url'', ''status_id'', ''addresses'', ''emails''],
           contact_attributes_outbound = Present [],
           contact_attributes_inbound = Missing \<rparr>"
  have h1: "attributeMappings example_mapping_util = Some ?am"
    by (simp add: example_mapping_util_def)
  have h2: "obj_has example_lead ''id''"
    by (simp add: example_lead_def obj_has_def)
  have h3: "\<not> isNil (obj_get example_lead ''id'')"
    by (simp add: example_lead_def obj_get_def)
  have h4: "''addresses'' \<in> set (case lead_attributes_inbound ?am of Present l \<Rightarrow> l | _ \<Rightarrow> [])
           \<longrightarrow> obj_get example_lead ''addresses'' \<noteq> JNull"
    by (simp add: example_lead_def obj_get_def)
  have h5: "\<forall>m\<in>set (case lead_attributes_outbound ?am of Present l \<Rightarrow> l | _ \<Rightarrow> []).
           usable_rule m \<longrightarrow> closeio_field_name m \<noteq> Some ''id''"
    by simp
  have h6: "obj_get example_hull_account ''closeio/id'' = obj_get example_lead ''id''"
    by (simp add: example_hull_account_def example_lead_def obj_get_def)
  have i: "mapLeadToHullAccountAttributes_001 (\<lambda>s. s) example_mapping_util example_lead =
     Inr [(''closeio/name'', JObj [(''value'', JStr ''Acme''), (''operation'', JStr ''set'')]),
          (''closeio/url'', JObj [(''value'', JStr ''http://acme.com''), (''operation'', JStr ''set'')]),
          (''closeio/status'', JObj [(''value'', JStr ''Potential''), (''operation'', JStr ''set'')]),
          (''closeio/address_business_city'',
             JObj [(''value'', JStr ''Paris''), (''operation'', JStr ''set'')]),
          (''closeio/id'', JObj [(''value'', JStr ''lead_1''), (''operation'', JStr ''set'')]),
          (''name'', JObj [(''value'', JStr ''Acme''), (''operation'', JStr ''setIfNull'')]),
          (''closeio/created_at'',
             JObj [(''value'', JStr ''2018-01-01''), (''operation'', JStr ''setIfNull'')]),
          (''closeio/updated_at'',
             JObj [(''value'', JStr ''2018-02-01''), (''operation'', JStr ''set'')])]"
    by (simp add: mapping_eval example_mapping_util_def example_lead_def)
  have o: "mapToServiceObject_001 example_catalogue example_mapping_util ''Lead'' example_hull_account =
     Inr [(''name'', JStr ''Acme''), (''url'', JStr ''acme.com''), (''id'', JStr ''lead_1''),
          (''emails'', JArr [JObj [(''type'', JStr ''office''), (''email'', JStr ''help@acme.com'')]])]"
    by (simp add: mapping_eval example_mapping_util_def example_hull_account_def)
  from lead_id_round_trip [OF h1 h2 h3 h4 h5 h6, of "\<lambda>s. s" example_catalogue] i o h6
  show ?thesis by simp
qed

text \<open>
  Claim C9 as stated fails under a configuration whose lead rule writes the Hull field
  \<open>name\<close> to the Close.io field \<open>id\<close>: the customized mapping runs after the
  default properties and overwrites the id with the name.
\<close>

theorem id_rule_overwrites_lead_id:
  "mapLeadToHullAccountAttributes_001 (\<lambda>s. s) id_rule_mapping_util example_lead =
     Inr [(''closeio/name'', JObj [(''value'', JStr ''Acme''), (''operation'', JStr ''set'')]),
          (''closeio/id'', JObj [(''value'', JStr ''lead_1''), (''operation'', JStr ''set'')]),
          (''name'', JObj [(''value'', JStr ''Acme''), (''operation'', JStr ''setIfNull'')]),
          (''closeio/created_at'',
             JObj [(''value'', JStr ''2018-01-01''), (''operation'', JStr ''setIfNull'')]),
          (''closeio/updated_at'',
             JObj [(''value'', JStr ''2018-02-01''), (''operation'', JStr ''set'')])]
   \<and> obj_get example_hull_account ''closeio/id'' = JStr ''lead_1''
   \<and> mapToServiceObject_001 example_catalogue id_rule_mapping_util ''Lead'' example_hull_account =
     Inr [(''name'', JStr ''Acme''), (''url'', JStr ''acme.com''), (''id'', JStr ''Acme'')]"
  by (simp add: mapping_eval id_rule_mapping_util_def example_mapping_util_def
      example_hull_account_def example_lead_def)

end
